theory Spec2Isabelle
  imports Complex_Main "HOL-Library.Char_ord" "HOL-Library.List_Lexorder"
begin

section \<open>Data model of the SIMM calculator\<close>

text \<open>
  The calculator of \<^verbatim>\<open>orea/simm/simmcalculator.cpp\<close> works on CRIF records and on
  a read-only SIMM configuration. \<^verbatim>\<open>QuantLib::Real\<close> is modelled by the type
  \<open>real\<close>: the arithmetic is the exact arithmetic the floating-point code approximates.
  Netting set details are an opaque key of which only equality is used; they are
  modelled by a string.
\<close>

type_synonym NettingSetDetails = string

datatype SimmSide = Call | Post

datatype RiskType =
    Commodity | CommodityVol | CreditNonQ | CreditQ | CreditVol | CreditVolNonQ
  | Equity | EquityVol | FX | FXVol | Inflation | IRCurve | IRVol | InflationVol
  | BaseCorr | XCcyBasis | ProductClassMultiplier | AddOnNotionalFactor | Notional
  | AddOnFixedAmount | PV

datatype ProductClass =
    PC_RatesFX | PC_Rates | PC_FX | PC_Credit | PC_Equity | PC_Commodity | PC_Other
  | PC_Empty | PC_AddOnNotionalFactor | PC_AddOnFixedAmount | PC_All

datatype RiskClass =
    RC_InterestRate | RC_CreditQualifying | RC_CreditNonQualifying | RC_Equity
  | RC_Commodity | RC_FX | RC_All

datatype MarginType =
    MT_Delta | MT_Vega | MT_Curvature | MT_BaseCorr | MT_AdditionalIM | MT_All

datatype SimmVersion =
    V1_0 | V1_1 | V1_2 | V1_3 | V1_3_38 | V2_0 | V2_1 | V2_2 | V2_3 | V2_3_8 | V2_5
  | V2_5A | V2_6

text \<open>The position of a version in the enumeration, which is what the comparisons
  \<^verbatim>\<open>version > thresholdVersion\<close> of the source compare.\<close>

fun versionRank :: "SimmVersion \<Rightarrow> nat" where
  "versionRank V1_0 = 0"
| "versionRank V1_1 = 1"
| "versionRank V1_2 = 2"
| "versionRank V1_3 = 3"
| "versionRank V1_3_38 = 4"
| "versionRank V2_0 = 5"
| "versionRank V2_1 = 6"
| "versionRank V2_2 = 7"
| "versionRank V2_3 = 8"
| "versionRank V2_3_8 = 9"
| "versionRank V2_5 = 10"
| "versionRank V2_5A = 11"
| "versionRank V2_6 = 12"

record CrifRecord =
  tradeId :: string
  tradeType :: string
  nettingSetDetails :: NettingSetDetails
  productClass :: ProductClass
  riskType :: RiskType
  qualifier :: string
  bucket :: string
  label1 :: string
  label2 :: string
  amountCurrency :: string
  amount :: real
  amountUsd :: real
  imModel :: string
  collectRegulations :: string
  postRegulations :: string

text \<open>
  The interface of \<^verbatim>\<open>SimmConfiguration\<close> as the calculator calls it. The calculation
  currency is the last argument of \<open>weight\<close>, \<open>correlation\<close> and \<open>sigma\<close>; a call of the
  source that leaves it out passes the default, the empty string.
\<close>

record SimmConfiguration =
  weight :: "RiskType \<Rightarrow> string \<Rightarrow> string \<Rightarrow> string \<Rightarrow> real"
  correlation :: "RiskType \<Rightarrow> string \<Rightarrow> string \<Rightarrow> string \<Rightarrow>
                  RiskType \<Rightarrow> string \<Rightarrow> string \<Rightarrow> string \<Rightarrow> string \<Rightarrow> real"
  concentrationThreshold :: "RiskType \<Rightarrow> string \<Rightarrow> real"
  curvatureWeight :: "RiskType \<Rightarrow> string \<Rightarrow> real"
  sigma :: "RiskType \<Rightarrow> string \<Rightarrow> string \<Rightarrow> string \<Rightarrow> real"
  historicalVolatilityRatio :: "RiskType \<Rightarrow> real"
  curvatureMarginScaling :: real
  version :: SimmVersion

text \<open>
  The members of \<^verbatim>\<open>SimmCalculator\<close> the margin functions read: the configuration, the
  calculation currency, and the 99.5th-percentile standard-normal quantile that
  \<^verbatim>\<open>lambda\<close> obtains from \<^verbatim>\<open>boost::math::quantile\<close>.
\<close>

record SimmCalculator =
  simmConfiguration :: SimmConfiguration
  calculationCcy :: string
  quantile995 :: real

text \<open>Failures of the source: a failed \<^verbatim>\<open>QL_REQUIRE\<close> and the
  \<^verbatim>\<open>std::out_of_range\<close> of \<^verbatim>\<open>vector::at\<close>.\<close>

datatype error = RequireFailed | OutOfRange

subsection \<open>Floating-point comparison\<close>

text \<open>
  \<^verbatim>\<open>QuantLib::close_enough(x, y)\<close> of \<^verbatim>\<open>ql/math/comparison.hpp\<close>, with its default
  of 42 machine epsilons, and \<^verbatim>\<open>std::numeric_limits<Real>::min()\<close>, the smallest
  positive normalised double.
\<close>

definition QL_EPSILON :: real where
  "QL_EPSILON = 1 / 2 ^ 52"

definition close_enough :: "real \<Rightarrow> real \<Rightarrow> bool" where
  "close_enough x y =
     (if x = y then True
      else (let diff = \<bar>x - y\<bar>; tolerance = 42 * QL_EPSILON
            in if x * y = 0 then diff < tolerance * tolerance
               else diff \<le> tolerance * \<bar>x\<bar> \<or> diff \<le> tolerance * \<bar>y\<bar>))"

definition numeric_limits_min :: real where
  "numeric_limits_min = 1 / 2 ^ 1022"

section \<open>Winning regulation\<close>

text \<open>
  Lines 185 to 213 of the constructor, for one side and one netting set. The argument
  lists, in the key order of the \<^verbatim>\<open>std::map\<close>, each regulation with the overall margin
  \<^verbatim>\<open>get(ProductClass::All, RiskClass::All, MarginType::All, "All")\<close> of its results.
  \<open>getWinningRegulation\<close> is the priority rule of \<^verbatim>\<open>orea/simm/utilities.hpp\<close>.
\<close>

fun highestMargin :: "(string \<times> real) list \<Rightarrow> real \<Rightarrow> real" where
  "highestMargin [] winningMargin = winningMargin"
| "highestMargin ((reg, im) # rest) winningMargin =
     highestMargin rest (if im > winningMargin then im else winningMargin)"

definition winningRegulationsOf :: "(string \<times> real) list \<Rightarrow> real \<Rightarrow> string list" where
  "winningRegulationsOf nettingSetMargins winningMargin =
     map fst (filter (\<lambda>kv. close_enough (snd kv) winningMargin) nettingSetMargins)"

definition selectWinningRegulation ::
  "(string list \<Rightarrow> string) \<Rightarrow> (string \<times> real) list \<Rightarrow> error + string" where
  "selectWinningRegulation getWinningRegulation regSimmResults =
     (let winningMargin = highestMargin regSimmResults numeric_limits_min;
          winningRegulations = winningRegulationsOf regSimmResults winningMargin
      in if length winningRegulations > 1 then Inr (getWinningRegulation winningRegulations)
         else (case winningRegulations of
                 [] \<Rightarrow> Inl OutOfRange
               | r # _ \<Rightarrow> Inr r))"

section \<open>Regulation splitting\<close>

text \<open>
  Modelled from the spec: the class \<^verbatim>\<open>CrifLoader\<close> that holds the records of one side,
  netting set and regulation (\<^verbatim>\<open>orea/simm/crifloader.hpp\<close> is not among the sources).
  Following section 4.1 of the specification it is the collection of the records
  inserted into it, here the list of them in insertion order; \<^verbatim>\<open>netRecords\<close> returns them.
\<close>

type_synonym CrifLoader = "CrifRecord list"

definition CrifLoader_add :: "CrifLoader \<Rightarrow> CrifRecord \<Rightarrow> CrifLoader" where
  "CrifLoader_add loader cr = loader @ [cr]"

definition CrifLoader_netRecords :: "CrifLoader \<Rightarrow> CrifRecord list" where
  "CrifLoader_netRecords loader = loader"

text \<open>
  Modelled from the spec: the comparison of \<^verbatim>\<open>CrifRecord\<close> that the lookup
  \<^verbatim>\<open>netRecordsSEC.find(cr)\<close> uses (\<^verbatim>\<open>orea/simm/crifrecord.hpp\<close> is not among the
  sources). Section 4.1 of the specification: two records are equal when they agree
  on every field but the currency of the amount.
\<close>

definition crifRecordEqual :: "CrifRecord \<Rightarrow> CrifRecord \<Rightarrow> bool" where
  "crifRecordEqual a b = (a\<lparr>amountCurrency := []\<rparr> = b\<lparr>amountCurrency := []\<rparr>)"

definition findRecord :: "CrifRecord list \<Rightarrow> CrifRecord \<Rightarrow> bool" where
  "findRecord records cr = list_ex (\<lambda>x. crifRecordEqual x cr) records"

text \<open>
  The regulations of one side and netting set, \<^verbatim>\<open>map<string, shared_ptr<CrifLoader>>\<close>,
  are an association list with one entry per key; \<^verbatim>\<open>regSensitivities_\<close> gives one for
  every side and netting set, the empty list where the source has no entry.
\<close>

type_synonym RegulationMap = "(string \<times> CrifLoader) list"

fun mapCount :: "RegulationMap \<Rightarrow> string \<Rightarrow> bool" where
  "mapCount [] k = False"
| "mapCount ((k', v) # m) k = (if k' = k then True else mapCount m k)"

fun mapAt :: "RegulationMap \<Rightarrow> string \<Rightarrow> CrifLoader" where
  "mapAt [] k = []"
| "mapAt ((k', v) # m) k = (if k' = k then v else mapAt m k)"

fun mapPut :: "RegulationMap \<Rightarrow> string \<Rightarrow> CrifLoader \<Rightarrow> RegulationMap" where
  "mapPut [] k v = [(k, v)]"
| "mapPut ((k', v') # m) k v = (if k' = k then (k, v) # m else (k', v') # mapPut m k v)"

fun mapErase :: "RegulationMap \<Rightarrow> string \<Rightarrow> RegulationMap" where
  "mapErase [] k = []"
| "mapErase ((k', v) # m) k = (if k' = k then mapErase m k else (k', v) # mapErase m k)"

text \<open>
  Lines 79 to 102 of the constructor: Schedule records are skipped; for every netting
  set the two maps record whether the collect and the post regulations of all its
  records so far are empty; the record is kept in \<open>tmp\<close>.
\<close>

definition trackIsEmpty ::
  "(NettingSetDetails \<rightharpoonup> bool) \<Rightarrow> NettingSetDetails \<Rightarrow> string \<Rightarrow> (NettingSetDetails \<rightharpoonup> bool)" where
  "trackIsEmpty regsIsEmpty nsd regulations =
     (case regsIsEmpty nsd of
        None \<Rightarrow> regsIsEmpty(nsd \<mapsto> (regulations = []))
      | Some e \<Rightarrow> if e \<and> regulations \<noteq> [] then regsIsEmpty(nsd \<mapsto> False) else regsIsEmpty)"

record RegsTracking =
  collectRegsIsEmptyMap :: "NettingSetDetails \<rightharpoonup> bool"
  postRegsIsEmptyMap :: "NettingSetDetails \<rightharpoonup> bool"
  tmp :: "CrifRecord list"

definition trackRecord :: "CrifRecord \<Rightarrow> RegsTracking \<Rightarrow> RegsTracking" where
  "trackRecord cr t =
     (if imModel cr = ''Schedule'' then t
      else \<lparr> collectRegsIsEmptyMap =
               trackIsEmpty (collectRegsIsEmptyMap t) (nettingSetDetails cr) (collectRegulations cr),
             postRegsIsEmptyMap =
               trackIsEmpty (postRegsIsEmptyMap t) (nettingSetDetails cr) (postRegulations cr),
             tmp = tmp t @ [cr] \<rparr>)"

definition trackRecords :: "CrifRecord list \<Rightarrow> RegsTracking" where
  "trackRecords simmNetSensitivities =
     fold trackRecord simmNetSensitivities
       \<lparr> collectRegsIsEmptyMap = Map.empty, postRegsIsEmptyMap = Map.empty, tmp = [] \<rparr>"

text \<open>
  \<^verbatim>\<open>addCrifRecord\<close>, lines 1655 to 1694. \<open>parseRegulationString\<close>, of
  \<^verbatim>\<open>orea/simm/utilities.hpp\<close>, is a parameter: it returns the set of regulation tags of a
  regulation string, as the list of its elements. The trade ids the source also
  records per regulation are not part of the model.
\<close>

type_synonym RegSensitivities = "SimmSide \<Rightarrow> NettingSetDetails \<Rightarrow> RegulationMap"

definition addToRegulation ::
  "SimmSide \<Rightarrow> NettingSetDetails \<Rightarrow> CrifRecord \<Rightarrow> string \<Rightarrow> RegSensitivities \<Rightarrow> RegSensitivities" where
  "addToRegulation side nsd newCrifRecord r regSensitivities =
     regSensitivities(side := (regSensitivities side)(nsd :=
       mapPut (regSensitivities side nsd) r
         (CrifLoader_add (mapAt (regSensitivities side nsd) r) newCrifRecord)))"

definition addCrifRecord ::
  "(string \<Rightarrow> string list) \<Rightarrow> RegsTracking \<Rightarrow> CrifRecord \<Rightarrow> SimmSide \<Rightarrow> bool \<Rightarrow>
   RegSensitivities \<Rightarrow> RegSensitivities" where
  "addCrifRecord parseRegulationString t crifRecord side enforceIMRegulations regSensitivities =
     (let nsd = nettingSetDetails crifRecord;
          collectRegsIsEmpty = (case collectRegsIsEmptyMap t nsd of Some b \<Rightarrow> b | None \<Rightarrow> False);
          postRegsIsEmpty = (case postRegsIsEmptyMap t nsd of Some b \<Rightarrow> b | None \<Rightarrow> False);
          regsString = (if enforceIMRegulations
                        then (if side = Call then collectRegulations crifRecord
                              else postRegulations crifRecord)
                        else []);
          regs = parseRegulationString regsString;
          newCrifRecord = crifRecord\<lparr>collectRegulations := [], postRegulations := []\<rparr>
      in fold (\<lambda>r rs.
                 if r = ''Excluded'' \<or>
                    (r = ''Unspecified'' \<and> enforceIMRegulations \<and>
                     \<not> (collectRegsIsEmpty \<and> postRegsIsEmpty))
                 then rs
                 else if r \<noteq> ''Excluded'' then addToRegulation side nsd newCrifRecord r rs
                 else rs)
           regs regSensitivities)"

text \<open>Lines 114 to 117: every record is added for the side Call and for the side Post.\<close>

definition addCrifRecords ::
  "(string \<Rightarrow> string list) \<Rightarrow> RegsTracking \<Rightarrow> bool \<Rightarrow> RegSensitivities" where
  "addCrifRecords parseRegulationString t enforceIMRegulations =
     fold (\<lambda>crifRecord rs.
             addCrifRecord parseRegulationString t crifRecord Post enforceIMRegulations
               (addCrifRecord parseRegulationString t crifRecord Call enforceIMRegulations rs))
       (tmp t) (\<lambda>side nsd. [])"

text \<open>
  Lines 125 to 141: with both a CFTC and a SEC entry, every net CFTC record that is not
  found among the net SEC records is added to the SEC loader. The two lists of net
  records are taken before the loop.
\<close>

definition mergeCFTCintoSEC :: "RegulationMap \<Rightarrow> RegulationMap" where
  "mergeCFTCintoSEC s =
     (let hasCFTC = mapCount s ''CFTC''; hasSEC = mapCount s ''SEC''
      in if hasCFTC \<and> hasSEC
         then (let netRecordsCFTC = CrifLoader_netRecords (mapAt s ''CFTC'');
                   netRecordsSEC = CrifLoader_netRecords (mapAt s ''SEC'')
               in fold (\<lambda>cr s'. if \<not> findRecord netRecordsSEC cr
                                  then mapPut s' ''SEC'' (CrifLoader_add (mapAt s' ''SEC'') cr)
                                  else s')
                    netRecordsCFTC s)
         else s)"

text \<open>Lines 146 and 147.\<close>

definition eraseUnspecified :: "RegulationMap \<Rightarrow> RegulationMap" where
  "eraseUnspecified s =
     (if mapCount s ''Unspecified'' \<and> length s > 1 then mapErase s ''Unspecified'' else s)"

text \<open>
  The regulation sensitivities the constructor computes margins from (lines 78 to 149).
  With no record left after the Schedule records are removed the constructor returns
  at once.
\<close>

definition splitRegulations ::
  "(string \<Rightarrow> string list) \<Rightarrow> bool \<Rightarrow> CrifRecord list \<Rightarrow> RegSensitivities" where
  "splitRegulations parseRegulationString enforceIMRegulations simmNetSensitivities =
     (let t = trackRecords simmNetSensitivities
      in if tmp t = [] then (\<lambda>side nsd. [])
         else (\<lambda>side nsd.
                 eraseUnspecified
                   (mergeCFTCintoSEC
                      (addCrifRecords parseRegulationString t enforceIMRegulations side nsd))))"

subsection \<open>Notions used to state the splitting theorems\<close>

text \<open>The regulation string \<^verbatim>\<open>addCrifRecord\<close> parses for a record and a side.\<close>

definition regsStringOf :: "bool \<Rightarrow> SimmSide \<Rightarrow> CrifRecord \<Rightarrow> string" where
  "regsStringOf enforceIMRegulations side cr =
     (if enforceIMRegulations
      then (if side = Call then collectRegulations cr else postRegulations cr)
      else [])"

text \<open>Some record of the netting set that is not a Schedule record has a collect or a
  post regulation string that is not empty.\<close>

definition regulationsSpecified :: "CrifRecord list \<Rightarrow> NettingSetDetails \<Rightarrow> bool" where
  "regulationsSpecified recs nsd =
     list_ex (\<lambda>cr. imModel cr \<noteq> ''Schedule'' \<and> nettingSetDetails cr = nsd \<and>
                   (collectRegulations cr \<noteq> [] \<or> postRegulations cr \<noteq> [])) recs"

text \<open>The condition under which \<^verbatim>\<open>addCrifRecord\<close> adds the record under the tag \<open>r\<close>,
  and the loop of the constructor over a list of records.\<close>

definition keptTag :: "bool \<Rightarrow> RegsTracking \<Rightarrow> NettingSetDetails \<Rightarrow> string \<Rightarrow> bool" where
  "keptTag enforceIMRegulations t nsd r =
     (\<not> (r = ''Excluded'' \<or>
         (r = ''Unspecified'' \<and> enforceIMRegulations \<and>
          \<not> ((case collectRegsIsEmptyMap t nsd of Some b \<Rightarrow> b | None \<Rightarrow> False) \<and>
             (case postRegsIsEmptyMap t nsd of Some b \<Rightarrow> b | None \<Rightarrow> False)))))"

definition addAll ::
  "(string \<Rightarrow> string list) \<Rightarrow> RegsTracking \<Rightarrow> bool \<Rightarrow> CrifRecord list \<Rightarrow> RegSensitivities" where
  "addAll parseRegulationString t enforceIMRegulations recs =
     fold (\<lambda>crifRecord rs.
             addCrifRecord parseRegulationString t crifRecord Post enforceIMRegulations
               (addCrifRecord parseRegulationString t crifRecord Call enforceIMRegulations rs))
       recs (\<lambda>side nsd. [])"

section \<open>Additional margin\<close>

text \<open>
  Modelled from the spec: the class \<^verbatim>\<open>SimmResults\<close> (\<^verbatim>\<open>orea/simm/simmresults.hpp\<close> is
  not among the sources). Section 3 of the specification: a sparse table from
  (product class, risk class, margin type, bucket) to a margin, with \<^verbatim>\<open>has\<close>, \<^verbatim>\<open>get\<close>
  and \<^verbatim>\<open>add\<close>; \<^verbatim>\<open>add\<close> adds the amount to the entry of an existing key unless it is
  asked to overwrite it.
\<close>

type_synonym SimmResults = "ProductClass \<times> RiskClass \<times> MarginType \<times> string \<rightharpoonup> real"

definition SimmResults_has ::
  "SimmResults \<Rightarrow> ProductClass \<Rightarrow> RiskClass \<Rightarrow> MarginType \<Rightarrow> string \<Rightarrow> bool" where
  "SimmResults_has results pc rc mt b = (results (pc, rc, mt, b) \<noteq> None)"

definition SimmResults_get ::
  "SimmResults \<Rightarrow> ProductClass \<Rightarrow> RiskClass \<Rightarrow> MarginType \<Rightarrow> string \<Rightarrow> real" where
  "SimmResults_get results pc rc mt b =
     (case results (pc, rc, mt, b) of Some im \<Rightarrow> im | None \<Rightarrow> 0)"

text \<open>\<^verbatim>\<open>SimmCalculator::add\<close>, lines 1635 to 1645, on the results of one side, netting set
  and regulation.\<close>

definition add ::
  "SimmResults \<Rightarrow> ProductClass \<Rightarrow> RiskClass \<Rightarrow> MarginType \<Rightarrow> string \<Rightarrow> real \<Rightarrow> bool \<Rightarrow> SimmResults" where
  "add results pc rc mt b margin overwrite =
     results((pc, rc, mt, b) \<mapsto>
       (case results (pc, rc, mt, b) of
          Some im \<Rightarrow> if overwrite then margin else im + margin
        | None \<Rightarrow> margin))"

text \<open>
  The ordered indices of the record container: \<^verbatim>\<open>equal_range\<close> on the risk type index
  and on the qualifier index gives the records with the key, in the order of the
  container.
\<close>

definition equal_range_RiskType ::
  "NettingSetDetails \<Rightarrow> ProductClass \<Rightarrow> RiskType \<Rightarrow> CrifRecord list \<Rightarrow> CrifRecord list" where
  "equal_range_RiskType nsd pc rt netRecords =
     filter (\<lambda>r. nettingSetDetails r = nsd \<and> productClass r = pc \<and> riskType r = rt) netRecords"

definition equal_range_Qualifier ::
  "NettingSetDetails \<Rightarrow> ProductClass \<Rightarrow> RiskType \<Rightarrow> string \<Rightarrow> CrifRecord list \<Rightarrow> CrifRecord list" where
  "equal_range_Qualifier nsd pc rt q netRecords =
     filter (\<lambda>r. nettingSetDetails r = nsd \<and> productClass r = pc \<and> riskType r = rt \<and>
                  qualifier r = q) netRecords"

text \<open>The four calls of \<^verbatim>\<open>add\<close> that each of the three add-ons makes: the margin goes
  to the additional margin and to the total of the product class, and to the additional
  margin and the total of the netting set.\<close>

definition addAdditionalIM :: "SimmResults \<Rightarrow> ProductClass \<Rightarrow> real \<Rightarrow> SimmResults" where
  "addAdditionalIM results pc margin =
     (let overwrite = False;
          r1 = add results pc RC_All MT_AdditionalIM ''All'' margin overwrite;
          r2 = add r1 pc RC_All MT_All ''All'' margin overwrite;
          r3 = add r2 PC_All RC_All MT_AdditionalIM ''All'' margin overwrite
      in add r3 PC_All RC_All MT_All ''All'' margin overwrite)"

text \<open>Lines 1296 to 1318. \<open>parseSimmProductClass\<close>, of \<^verbatim>\<open>orea/simm/simmconfiguration.hpp\<close>,
  is a parameter; it gives \<open>None\<close> where the source's parser fails.\<close>

fun productClassMultiplierLoop ::
  "(string \<Rightarrow> ProductClass option) \<Rightarrow> CrifRecord list \<Rightarrow> SimmResults \<Rightarrow> error + SimmResults" where
  "productClassMultiplierLoop parseSimmProductClass [] results = Inr results"
| "productClassMultiplierLoop parseSimmProductClass (it # rest) results =
     (case parseSimmProductClass (qualifier it) of
        None \<Rightarrow> Inl RequireFailed
      | Some qpc \<Rightarrow>
          if SimmResults_has results qpc RC_All MT_All ''All''
          then (let im = SimmResults_get results qpc RC_All MT_All ''All'';
                    factor = amount it
                in if \<not> factor \<ge> 0 then Inl RequireFailed
                   else productClassMultiplierLoop parseSimmProductClass rest
                          (addAdditionalIM results qpc ((factor - 1) * im)))
          else productClassMultiplierLoop parseSimmProductClass rest results)"

text \<open>Lines 1324 to 1340.\<close>

definition addOnFixedAmountLoop :: "CrifRecord list \<Rightarrow> SimmResults \<Rightarrow> SimmResults" where
  "addOnFixedAmountLoop pIt results =
     fold (\<lambda>it res. addAdditionalIM res PC_AddOnFixedAmount (amountUsd it)) pIt results"

text \<open>Lines 1351 to 1384: the body of the loop for one AddOnNotionalFactor record, and
  the loop.\<close>

definition addOnNotionalFactorStep ::
  "NettingSetDetails \<Rightarrow> CrifRecord list \<Rightarrow> CrifRecord \<Rightarrow> SimmResults \<Rightarrow> error + SimmResults" where
  "addOnNotionalFactorStep nsd netRecords it results =
     (let pQualifierIt = equal_range_Qualifier nsd PC_Empty Notional (qualifier it) netRecords;
          count = length pQualifierIt
      in if \<not> count < 2 then Inl RequireFailed
         else if count = 1
         then (let notional = amountUsd (hd pQualifierIt);
                   factor = amount it;
                   notionalFactorMargin = notional * factor / 100
               in Inr (addAdditionalIM results PC_AddOnNotionalFactor notionalFactorMargin))
         else Inr results)"

fun addOnNotionalFactorLoop ::
  "NettingSetDetails \<Rightarrow> CrifRecord list \<Rightarrow> CrifRecord list \<Rightarrow> SimmResults \<Rightarrow> error + SimmResults" where
  "addOnNotionalFactorLoop nsd netRecords [] results = Inr results"
| "addOnNotionalFactorLoop nsd netRecords (it # rest) results =
     (case addOnNotionalFactorStep nsd netRecords it results of
        Inl e \<Rightarrow> Inl e
      | Inr results' \<Rightarrow> addOnNotionalFactorLoop nsd netRecords rest results')"

text \<open>\<^verbatim>\<open>calcAddMargin\<close>, lines 1273 to 1385.\<close>

definition calcAddMargin ::
  "(string \<Rightarrow> ProductClass option) \<Rightarrow> NettingSetDetails \<Rightarrow> CrifRecord list \<Rightarrow> SimmResults \<Rightarrow>
   error + SimmResults" where
  "calcAddMargin parseSimmProductClass nsd netRecords results =
     (case productClassMultiplierLoop parseSimmProductClass
             (equal_range_RiskType nsd PC_Empty ProductClassMultiplier netRecords) results of
        Inl e \<Rightarrow> Inl e
      | Inr r1 \<Rightarrow>
          addOnNotionalFactorLoop nsd netRecords
            (equal_range_RiskType nsd PC_Empty AddOnNotionalFactor netRecords)
            (addOnFixedAmountLoop (equal_range_RiskType nsd PC_Empty AddOnFixedAmount netRecords) r1))"

text \<open>The margin one AddOnNotionalFactor record contributes: the product of its factor
  and the only Notional record found for its qualifier, over 100; nothing otherwise.\<close>

definition notionalContribution :: "NettingSetDetails \<Rightarrow> CrifRecord list \<Rightarrow> CrifRecord \<Rightarrow> real" where
  "notionalContribution nsd netRecords it =
     (case equal_range_Qualifier nsd PC_Empty Notional (qualifier it) netRecords of
        [n] \<Rightarrow> amountUsd n * amount it / 100
      | _ \<Rightarrow> 0)"

section \<open>Margin calculation\<close>

subsection \<open>Index lookups, maps and the aggregation loop\<close>

text \<open>\<^verbatim>\<open>equal_range\<close> on the bucket index and on the bucket and qualifier index.\<close>

definition equal_range_Bucket ::
  "NettingSetDetails \<Rightarrow> ProductClass \<Rightarrow> RiskType \<Rightarrow> string \<Rightarrow> CrifRecord list \<Rightarrow> CrifRecord list" where
  "equal_range_Bucket nsd pc rt b netRecords =
     filter (\<lambda>r. nettingSetDetails r = nsd \<and> productClass r = pc \<and> riskType r = rt \<and>
                  bucket r = b) netRecords"

definition equal_range_BucketQualifier ::
  "NettingSetDetails \<Rightarrow> ProductClass \<Rightarrow> RiskType \<Rightarrow> string \<Rightarrow> string \<Rightarrow> CrifRecord list \<Rightarrow>
   CrifRecord list" where
  "equal_range_BucketQualifier nsd pc rt b q netRecords =
     filter (\<lambda>r. nettingSetDetails r = nsd \<and> productClass r = pc \<and> riskType r = rt \<and>
                  bucket r = b \<and> qualifier r = q) netRecords"

text \<open>
  The map \<^verbatim>\<open>buckets\<close> from a bucket to the set of its qualifiers, built from the
  records \<open>p\<close> of the risk type: its keys in the order of the map, and the qualifiers of
  a bucket in the order of the set. \<open>firstQualifier\<close> is \<^verbatim>\<open>*buckets.at(b).begin()\<close>.
\<close>

definition bucketKeys :: "CrifRecord list \<Rightarrow> string list" where
  "bucketKeys p = sort (remdups (map bucket p))"

definition bucketQualifiers :: "CrifRecord list \<Rightarrow> string \<Rightarrow> string list" where
  "bucketQualifiers p b = sort (remdups (map qualifier (filter (\<lambda>r. bucket r = b) p)))"

definition firstQualifier :: "CrifRecord list \<Rightarrow> string \<Rightarrow> string" where
  "firstQualifier p b = hd (bucketQualifiers p b)"

text \<open>The set of qualifiers of the interest rate functions, in the order of the set.\<close>

definition qualifierKeys :: "CrifRecord list \<Rightarrow> string list" where
  "qualifierKeys p = sort (remdups (map qualifier p))"

text \<open>\<^verbatim>\<open>m[k] += v\<close> on a \<^verbatim>\<open>map<string, Real>\<close>: a missing entry starts at zero.\<close>

definition addToMap :: "(string \<rightharpoonup> real) \<Rightarrow> string \<Rightarrow> real \<Rightarrow> (string \<rightharpoonup> real)" where
  "addToMap m k v = m(k \<mapsto> (case m k of None \<Rightarrow> 0 | Some x \<Rightarrow> x) + v)"

text \<open>
  The nested loop that every margin function runs over a range: the outer iterator
  adds its diagonal term, the inner iterator runs over the elements before it and adds
  a cross term; an element for which \<open>skip\<close> holds is passed over by both
  (\<^verbatim>\<open>continue\<close>). \<open>before\<close> holds the elements the outer iterator has passed.
\<close>

fun aggregateLoop ::
  "('a \<Rightarrow> bool) \<Rightarrow> ('a \<Rightarrow> real) \<Rightarrow> ('a \<Rightarrow> 'a \<Rightarrow> real) \<Rightarrow> 'a list \<Rightarrow> 'a list \<Rightarrow> real \<Rightarrow> real" where
  "aggregateLoop skip diag cross before [] acc = acc"
| "aggregateLoop skip diag cross before (itOuter # rest) acc =
     aggregateLoop skip diag cross (before @ [itOuter]) rest
       (if skip itOuter then acc
        else fold (\<lambda>itInner a. if skip itInner then a else a + cross itOuter itInner)
               before (acc + diag itOuter))"

text \<open>\<^verbatim>\<open>SimmCalculator::lambda\<close>, lines 1696 to 1702.\<close>

definition lambda :: "SimmCalculator \<Rightarrow> real \<Rightarrow> real" where
  "lambda sc theta = (let q = quantile995 sc in (q * q - 1) * (1 + theta) - theta)"

subsection \<open>Delta and vega margin: \<^verbatim>\<open>margin\<close>, lines 924 to 1105\<close>

text \<open>Risk_FX records in the calculation currency are passed over (lines 976, 1005
  and 1026).\<close>

definition skipFX :: "SimmCalculator \<Rightarrow> RiskType \<Rightarrow> string \<Rightarrow> bool" where
  "skipFX sc rt q = (rt = FX \<and> q = calculationCcy sc)"

text \<open>The entry \<^verbatim>\<open>concentrationRisk[qualifier]\<close> of the current bucket, lines 986 to 997,
  for a qualifier that is not passed over.\<close>

definition concentrationRisk ::
  "SimmCalculator \<Rightarrow> NettingSetDetails \<Rightarrow> ProductClass \<Rightarrow> RiskType \<Rightarrow> CrifRecord list \<Rightarrow>
   string \<Rightarrow> string \<Rightarrow> real" where
  "concentrationRisk sc nsd pc rt netRecords b q =
     (let cfg = simmConfiguration sc;
          hvr = historicalVolatilityRatio cfg rt;
          pQualifier = equal_range_BucketQualifier nsd pc rt b q netRecords;
          c = fold (\<lambda>it c. c + amountUsd it
                                 * sigma cfg rt (qualifier it) (label1 it) (calculationCcy sc) * hvr)
                pQualifier 0;
          c' = c / concentrationThreshold cfg rt q
      in max 1 (sqrt \<bar>c'\<bar>))"

text \<open>The weighted sensitivity \<^verbatim>\<open>wsOuter\<close> (and \<^verbatim>\<open>wsInner\<close>) of a record of the bucket,
  lines 1014 to 1018.\<close>

definition weightedSensitivity ::
  "SimmCalculator \<Rightarrow> NettingSetDetails \<Rightarrow> ProductClass \<Rightarrow> RiskType \<Rightarrow> CrifRecord list \<Rightarrow>
   string \<Rightarrow> CrifRecord \<Rightarrow> real" where
  "weightedSensitivity sc nsd pc rt netRecords b it =
     (let cfg = simmConfiguration sc;
          hvr = historicalVolatilityRatio cfg rt;
          rw = weight cfg rt (qualifier it) (label1 it) (calculationCcy sc);
          sigma' = sigma cfg rt (qualifier it) (label1 it) (calculationCcy sc)
      in rw * (amountUsd it * sigma' * hvr)
            * concentrationRisk sc nsd pc rt netRecords b (qualifier it))"

text \<open>The cross term of two records of a bucket, lines 1035 to 1046.\<close>

definition bucketCrossTerm ::
  "SimmCalculator \<Rightarrow> NettingSetDetails \<Rightarrow> ProductClass \<Rightarrow> RiskType \<Rightarrow> CrifRecord list \<Rightarrow>
   string \<Rightarrow> CrifRecord \<Rightarrow> CrifRecord \<Rightarrow> real" where
  "bucketCrossTerm sc nsd pc rt netRecords b itOuter itInner =
     (let cfg = simmConfiguration sc;
          corr = correlation cfg rt (qualifier itOuter) (label1 itOuter) (label2 itOuter)
                   rt (qualifier itInner) (label1 itInner) (label2 itInner) (calculationCcy sc);
          crOuter = concentrationRisk sc nsd pc rt netRecords b (qualifier itOuter);
          crInner = concentrationRisk sc nsd pc rt netRecords b (qualifier itInner);
          f = min crOuter crInner / max crOuter crInner;
          wsOuter = weightedSensitivity sc nsd pc rt netRecords b itOuter;
          wsInner = weightedSensitivity sc nsd pc rt netRecords b itInner
      in 2 * corr * f * wsOuter * wsInner)"

text \<open>\<^verbatim>\<open>sumWeightedSensis[bucket]\<close> and \<^verbatim>\<open>bucketMargin[bucket]\<close> after the loop over the
  buckets, lines 1003 to 1054.\<close>

definition sumWeightedSensis ::
  "SimmCalculator \<Rightarrow> NettingSetDetails \<Rightarrow> ProductClass \<Rightarrow> RiskType \<Rightarrow> CrifRecord list \<Rightarrow>
   string \<Rightarrow> real" where
  "sumWeightedSensis sc nsd pc rt netRecords b =
     fold (\<lambda>itOuter s. if skipFX sc rt (qualifier itOuter) then s
                         else s + weightedSensitivity sc nsd pc rt netRecords b itOuter)
       (equal_range_Bucket nsd pc rt b netRecords) 0"

definition bucketMargin ::
  "SimmCalculator \<Rightarrow> NettingSetDetails \<Rightarrow> ProductClass \<Rightarrow> RiskType \<Rightarrow> CrifRecord list \<Rightarrow>
   string \<Rightarrow> real" where
  "bucketMargin sc nsd pc rt netRecords b =
     sqrt (max (aggregateLoop (\<lambda>it. skipFX sc rt (qualifier it))
                  (\<lambda>itOuter. weightedSensitivity sc nsd pc rt netRecords b itOuter
                               * weightedSensitivity sc nsd pc rt netRecords b itOuter)
                  (bucketCrossTerm sc nsd pc rt netRecords b)
                  [] (equal_range_Bucket nsd pc rt b netRecords) 0) 0)"

text \<open>For the FX risk class, the entries \<^verbatim>\<open>bucketMargins[itOuter->qualifier] += wsOuter\<close>
  (line 1050) that the loop over the buckets and their records leaves.\<close>

definition qualifierMargins ::
  "SimmCalculator \<Rightarrow> NettingSetDetails \<Rightarrow> ProductClass \<Rightarrow> RiskType \<Rightarrow> CrifRecord list \<Rightarrow>
   string list \<Rightarrow> (string \<rightharpoonup> real)" where
  "qualifierMargins sc nsd pc rt netRecords buckets =
     fold (\<lambda>b m. fold (\<lambda>itOuter m'. if skipFX sc rt (qualifier itOuter) then m'
                                       else addToMap m' (qualifier itOuter)
                                              (weightedSensitivity sc nsd pc rt netRecords b itOuter))
                    (equal_range_Bucket nsd pc rt b netRecords) m)
       buckets Map.empty"

text \<open>\<open>S\<^sub>b\<close> of lines 1073 and 1077, and the cross term of two buckets, lines 1073 to
  1085.\<close>

definition clampedSum ::
  "SimmCalculator \<Rightarrow> NettingSetDetails \<Rightarrow> ProductClass \<Rightarrow> RiskType \<Rightarrow> CrifRecord list \<Rightarrow>
   string \<Rightarrow> real" where
  "clampedSum sc nsd pc rt netRecords b =
     max (min (sumWeightedSensis sc nsd pc rt netRecords b) (bucketMargin sc nsd pc rt netRecords b))
         (- bucketMargin sc nsd pc rt netRecords b)"

definition interBucketTerm ::
  "SimmCalculator \<Rightarrow> NettingSetDetails \<Rightarrow> ProductClass \<Rightarrow> RiskType \<Rightarrow> CrifRecord list \<Rightarrow>
   string \<Rightarrow> string \<Rightarrow> real" where
  "interBucketTerm sc nsd pc rt netRecords outerBucket innerBucket =
     (let p = equal_range_RiskType nsd pc rt netRecords;
          sOuter = clampedSum sc nsd pc rt netRecords outerBucket;
          sInner = clampedSum sc nsd pc rt netRecords innerBucket;
          innerQualifier = firstQualifier p innerBucket;
          outerQualifier = firstQualifier p outerBucket;
          corr = correlation (simmConfiguration sc) rt outerQualifier [] [] rt innerQualifier [] []
                   (calculationCcy sc)
      in 2 * sOuter * sInner * corr)"

definition margin ::
  "SimmCalculator \<Rightarrow> NettingSetDetails \<Rightarrow> ProductClass \<Rightarrow> RiskType \<Rightarrow> CrifRecord list \<Rightarrow>
   (string \<rightharpoonup> real) \<times> bool" where
  "margin sc nsd pc rt netRecords =
     (let riskClassIsFX = (rt = FX \<or> rt = FXVol);
          buckets = bucketKeys (equal_range_RiskType nsd pc rt netRecords)
      in if buckets = [] then ([''All'' \<mapsto> 0], False)
         else
           (let bucketMargins0 =
                  (if riskClassIsFX then qualifierMargins sc nsd pc rt netRecords buckets
                   else Map.empty);
                residualMargin =
                  (if ''Residual'' \<in> set buckets
                   then bucketMargin sc nsd pc rt netRecords ''Residual'' else 0);
                bucketMarginKeys = filter (\<lambda>b. b \<noteq> ''Residual'') buckets;
                m = aggregateLoop (\<lambda>b. False)
                      (\<lambda>b. bucketMargin sc nsd pc rt netRecords b
                            * bucketMargin sc nsd pc rt netRecords b)
                      (interBucketTerm sc nsd pc rt netRecords)
                      [] bucketMarginKeys 0;
                margin' = sqrt (max m 0) + residualMargin;
                bucketMargins1 =
                  (if \<not> close_enough residualMargin 0
                   then bucketMargins0(''Residual'' \<mapsto> residualMargin) else bucketMargins0);
                bucketMargins2 =
                  (if \<not> riskClassIsFX
                   then fold (\<lambda>b bm. bm(b \<mapsto> bucketMargin sc nsd pc rt netRecords b))
                          bucketMarginKeys bucketMargins1
                   else (\<lambda>k. map_option abs (bucketMargins1 k)))
            in (bucketMargins2(''All'' \<mapsto> margin'), True)))"

subsection \<open>Curvature margin: \<^verbatim>\<open>curvatureMargin\<close>, lines 1107 to 1271\<close>

text \<open>The multiplier of the sensitivities: -1 if the side is Post.\<close>

definition sideMultiplier :: "SimmSide \<Rightarrow> real" where
  "sideMultiplier side = (if side = Call then 1 else - 1)"

text \<open>The weighted curvature of the inner iterator, line 1186, and of the outer one,
  lines 1165 to 1171, which is zero for the equity bucket 12 from version 2.2 on.\<close>

definition curvatureWsInner :: "SimmCalculator \<Rightarrow> RiskType \<Rightarrow> SimmSide \<Rightarrow> CrifRecord \<Rightarrow> real" where
  "curvatureWsInner sc rt side it =
     (let cfg = simmConfiguration sc;
          sf = curvatureWeight cfg rt (label1 it);
          sigma' = sigma cfg rt (qualifier it) (label1 it) (calculationCcy sc)
      in sf * ((amountUsd it * sideMultiplier side) * sigma'))"

definition curvatureWsOuter ::
  "SimmCalculator \<Rightarrow> RiskType \<Rightarrow> SimmSide \<Rightarrow> string \<Rightarrow> CrifRecord \<Rightarrow> real" where
  "curvatureWsOuter sc rt side b it =
     (if versionRank (version (simmConfiguration sc)) \<ge> versionRank V2_2 \<and> b = ''12'' \<and>
         rt = EquityVol
      then 0 else curvatureWsInner sc rt side it)"


text \<open>\<^verbatim>\<open>sumWeightedSensis[bucket]\<close>, \<^verbatim>\<open>sumAbsTemp[bucket]\<close>, \<^verbatim>\<open>sumAbsWeightedSensis[bucket]\<close>
  and \<^verbatim>\<open>curvatureMargin[bucket]\<close> after the loop over the buckets, lines 1150 to 1203.\<close>

definition curvatureSum ::
  "SimmCalculator \<Rightarrow> NettingSetDetails \<Rightarrow> ProductClass \<Rightarrow> RiskType \<Rightarrow> SimmSide \<Rightarrow>
   CrifRecord list \<Rightarrow> string \<Rightarrow> real" where
  "curvatureSum sc nsd pc rt side netRecords b =
     fold (\<lambda>itOuter s. s + curvatureWsOuter sc rt side b itOuter)
       (equal_range_Bucket nsd pc rt b netRecords) 0"










subsection \<open>Interest rate delta margin: \<^verbatim>\<open>irDeltaMargin\<close>, lines 419 to 611\<close>

text \<open>\<^verbatim>\<open>find\<close> on the qualifier index: the first record with the key, if there is one.\<close>

definition findQualifier ::
  "NettingSetDetails \<Rightarrow> ProductClass \<Rightarrow> RiskType \<Rightarrow> string \<Rightarrow> CrifRecord list \<Rightarrow> CrifRecord option" where
  "findQualifier nsd pc rt q netRecords =
     (case equal_range_Qualifier nsd pc rt q netRecords of [] \<Rightarrow> None | it # _ \<Rightarrow> Some it)"

text \<open>The qualifiers of the IRCurve, XCcyBasis and Inflation records, lines 432 to 457.\<close>

definition irDeltaQualifiers ::
  "NettingSetDetails \<Rightarrow> ProductClass \<Rightarrow> CrifRecord list \<Rightarrow> string list" where
  "irDeltaQualifiers nsd pc netRecords =
     qualifierKeys (equal_range_RiskType nsd pc IRCurve netRecords
                    @ equal_range_RiskType nsd pc XCcyBasis netRecords
                    @ equal_range_RiskType nsd pc Inflation netRecords)"

text \<open>\<^verbatim>\<open>concentrationRisk[qualifier]\<close>, lines 494 to 504.\<close>

definition irDeltaConcentrationRisk ::
  "SimmCalculator \<Rightarrow> NettingSetDetails \<Rightarrow> ProductClass \<Rightarrow> CrifRecord list \<Rightarrow> string \<Rightarrow> real" where
  "irDeltaConcentrationRisk sc nsd pc netRecords q =
     (let pIrQualifier = equal_range_Qualifier nsd pc IRCurve q netRecords;
          c1 = fold (\<lambda>it c. c + amountUsd it) pIrQualifier 0;
          c2 = (case findQualifier nsd pc Inflation q netRecords of
                  None \<Rightarrow> c1
                | Some itInflation \<Rightarrow> c1 + amountUsd itInflation);
          c3 = c2 / concentrationThreshold (simmConfiguration sc) IRCurve q
      in max 1 (sqrt \<bar>c3\<bar>))"

text \<open>The weighted sensitivities: of an IRCurve record (lines 509 to 511, 525 and 526,
  548 and 549), of an IRCurve record in the cross term with the XCcyBasis record, where
  the weight is asked for with the calculation currency (lines 570 and 571), of the
  Inflation record (lines 535 to 537) and of the XCcyBasis record (lines 557 to 559).\<close>

definition irCurveWs ::
  "SimmCalculator \<Rightarrow> NettingSetDetails \<Rightarrow> ProductClass \<Rightarrow> CrifRecord list \<Rightarrow> string \<Rightarrow>
   CrifRecord \<Rightarrow> real" where
  "irCurveWs sc nsd pc netRecords q it =
     weight (simmConfiguration sc) IRCurve q (label1 it) [] * amountUsd it
       * irDeltaConcentrationRisk sc nsd pc netRecords q"

definition irCurveWsCcy ::
  "SimmCalculator \<Rightarrow> NettingSetDetails \<Rightarrow> ProductClass \<Rightarrow> CrifRecord list \<Rightarrow> string \<Rightarrow>
   CrifRecord \<Rightarrow> real" where
  "irCurveWsCcy sc nsd pc netRecords q it =
     weight (simmConfiguration sc) IRCurve q (label1 it) (calculationCcy sc) * amountUsd it
       * irDeltaConcentrationRisk sc nsd pc netRecords q"

definition inflationWs ::
  "SimmCalculator \<Rightarrow> NettingSetDetails \<Rightarrow> ProductClass \<Rightarrow> CrifRecord list \<Rightarrow> string \<Rightarrow> real" where
  "inflationWs sc nsd pc netRecords q =
     (case findQualifier nsd pc Inflation q netRecords of
        None \<Rightarrow> 0
      | Some itInflation \<Rightarrow>
          weight (simmConfiguration sc) Inflation q (label1 itInflation) [] * amountUsd itInflation
            * irDeltaConcentrationRisk sc nsd pc netRecords q)"

definition xccyWs ::
  "SimmCalculator \<Rightarrow> NettingSetDetails \<Rightarrow> ProductClass \<Rightarrow> CrifRecord list \<Rightarrow> string \<Rightarrow> real" where
  "xccyWs sc nsd pc netRecords q =
     (case findQualifier nsd pc XCcyBasis q netRecords of
        None \<Rightarrow> 0
      | Some itXccy \<Rightarrow>
          weight (simmConfiguration sc) XCcyBasis q (label1 itXccy) [] * amountUsd itXccy)"

text \<open>\<^verbatim>\<open>sumWeightedSensis[qualifier]\<close> after the loop over the qualifiers.\<close>

definition irDeltaSum ::
  "SimmCalculator \<Rightarrow> NettingSetDetails \<Rightarrow> ProductClass \<Rightarrow> CrifRecord list \<Rightarrow> string \<Rightarrow> real" where
  "irDeltaSum sc nsd pc netRecords q =
     (let s1 = fold (\<lambda>itOuter s. s + irCurveWs sc nsd pc netRecords q itOuter)
                 (equal_range_Qualifier nsd pc IRCurve q netRecords) 0;
          s2 = (case findQualifier nsd pc Inflation q netRecords of
                  None \<Rightarrow> s1 | Some itInflation \<Rightarrow> s1 + inflationWs sc nsd pc netRecords q)
      in case findQualifier nsd pc XCcyBasis q netRecords of
           None \<Rightarrow> s2 | Some itXccy \<Rightarrow> s2 + xccyWs sc nsd pc netRecords q)"

text \<open>\<^verbatim>\<open>deltaMargin[qualifier]\<close>: the IRCurve records among themselves (lines 507 to 529),
  the Inflation component (lines 532 to 552), the XCcyBasis component (lines 555 to
  582), and the square root of line 585.\<close>

definition irCurveCrossTerm ::
  "SimmCalculator \<Rightarrow> NettingSetDetails \<Rightarrow> ProductClass \<Rightarrow> CrifRecord list \<Rightarrow> string \<Rightarrow>
   CrifRecord \<Rightarrow> CrifRecord \<Rightarrow> real" where
  "irCurveCrossTerm sc nsd pc netRecords q itOuter itInner =
     (let cfg = simmConfiguration sc;
          subCurveCorr = correlation cfg IRCurve q [] (label2 itOuter)
                           IRCurve q [] (label2 itInner) [];
          tenorCorr = correlation cfg IRCurve q (label1 itOuter) []
                        IRCurve q (label1 itInner) [] []
      in 2 * subCurveCorr * tenorCorr * irCurveWs sc nsd pc netRecords q itOuter
           * irCurveWs sc nsd pc netRecords q itInner)"

definition irDeltaQualifierMargin ::
  "SimmCalculator \<Rightarrow> NettingSetDetails \<Rightarrow> ProductClass \<Rightarrow> CrifRecord list \<Rightarrow> string \<Rightarrow> real" where
  "irDeltaQualifierMargin sc nsd pc netRecords q =
     (let cfg = simmConfiguration sc;
          pIrQualifier = equal_range_Qualifier nsd pc IRCurve q netRecords;
          itXccy = findQualifier nsd pc XCcyBasis q netRecords;
          itInflation = findQualifier nsd pc Inflation q netRecords;
          d1 = aggregateLoop (\<lambda>it. False)
                 (\<lambda>itOuter. irCurveWs sc nsd pc netRecords q itOuter
                              * irCurveWs sc nsd pc netRecords q itOuter)
                 (irCurveCrossTerm sc nsd pc netRecords q) [] pIrQualifier 0;
          wsInflation = inflationWs sc nsd pc netRecords q;
          d2 = (case itInflation of
                  None \<Rightarrow> d1
                | Some itInf \<Rightarrow>
                    (let corr = correlation cfg IRCurve q [] [] Inflation q [] [] []
                     in fold (\<lambda>it d. d + 2 * corr * irCurveWs sc nsd pc netRecords q it * wsInflation)
                          pIrQualifier (d1 + wsInflation * wsInflation)));
          d3 = (case itXccy of
                  None \<Rightarrow> d2
                | Some itX \<Rightarrow>
                    (let wsXccy = xccyWs sc nsd pc netRecords q;
                         corr = correlation cfg IRCurve q [] [] XCcyBasis q [] [] [];
                         d = fold (\<lambda>it d. d + 2 * corr * irCurveWsCcy sc nsd pc netRecords q it * wsXccy)
                               pIrQualifier (d2 + wsXccy * wsXccy)
                     in case itInflation of
                          None \<Rightarrow> d
                        | Some itInf \<Rightarrow>
                            (let corr' = correlation cfg Inflation q [] [] XCcyBasis q [] [] []
                             in d + 2 * corr' * wsInflation * wsXccy)))
      in sqrt (max d3 0))"

text \<open>The cross term of two currencies, lines 594 to 601.\<close>

definition irDeltaClampedSum ::
  "SimmCalculator \<Rightarrow> NettingSetDetails \<Rightarrow> ProductClass \<Rightarrow> CrifRecord list \<Rightarrow> string \<Rightarrow> real" where
  "irDeltaClampedSum sc nsd pc netRecords q =
     max (min (irDeltaSum sc nsd pc netRecords q) (irDeltaQualifierMargin sc nsd pc netRecords q))
         (- irDeltaQualifierMargin sc nsd pc netRecords q)"

definition irDeltaCrossTerm ::
  "SimmCalculator \<Rightarrow> NettingSetDetails \<Rightarrow> ProductClass \<Rightarrow> CrifRecord list \<Rightarrow> string \<Rightarrow> string \<Rightarrow> real" where
  "irDeltaCrossTerm sc nsd pc netRecords itOuter itInner =
     (let sOuter = irDeltaClampedSum sc nsd pc netRecords itOuter;
          sInner = irDeltaClampedSum sc nsd pc netRecords itInner;
          crOuter = irDeltaConcentrationRisk sc nsd pc netRecords itOuter;
          crInner = irDeltaConcentrationRisk sc nsd pc netRecords itInner;
          g = min crOuter crInner / max crOuter crInner;
          corr = correlation (simmConfiguration sc) IRCurve itOuter [] [] IRCurve itInner [] [] []
      in 2 * sOuter * sInner * corr * g)"

text \<open>The function fails when a qualifier has more than one XCcyBasis or more than one
  Inflation record (lines 479 and 486).\<close>

definition irDeltaMargin ::
  "SimmCalculator \<Rightarrow> NettingSetDetails \<Rightarrow> ProductClass \<Rightarrow> CrifRecord list \<Rightarrow>
   error + ((string \<rightharpoonup> real) \<times> bool)" where
  "irDeltaMargin sc nsd pc netRecords =
     (let qualifiers = irDeltaQualifiers nsd pc netRecords
      in if qualifiers = [] then Inr ([''All'' \<mapsto> 0], False)
         else if list_ex (\<lambda>q. \<not> length (equal_range_Qualifier nsd pc XCcyBasis q netRecords) < 2 \<or>
                              \<not> length (equal_range_Qualifier nsd pc Inflation q netRecords) < 2)
                   qualifiers
         then Inl RequireFailed
         else
           (let m = aggregateLoop (\<lambda>q. False)
                      (\<lambda>q. irDeltaQualifierMargin sc nsd pc netRecords q
                            * irDeltaQualifierMargin sc nsd pc netRecords q)
                      (irDeltaCrossTerm sc nsd pc netRecords) [] qualifiers 0;
                margin' = sqrt (max m 0);
                bucketMargins =
                  fold (\<lambda>q bm. bm(q \<mapsto> irDeltaQualifierMargin sc nsd pc netRecords q))
                    qualifiers Map.empty
            in Inr (bucketMargins(''All'' \<mapsto> margin'), True)))"

subsection \<open>Interest rate vega margin: \<^verbatim>\<open>irVegaMargin\<close>, lines 613 to 764\<close>











subsection \<open>Interest rate curvature margin: \<^verbatim>\<open>irCurvatureMargin\<close>, lines 766 to 922\<close>











subsection \<open>Notions used to state the margin theorems\<close>






text \<open>The records with the USD amounts of one qualifier doubled, and the records
  without the Risk_FX records in the calculation currency.\<close>

definition doubleQualifier :: "string \<Rightarrow> CrifRecord list \<Rightarrow> CrifRecord list" where
  "doubleQualifier q netRecords =
     map (\<lambda>r. if qualifier r = q then r\<lparr>amountUsd := 2 * amountUsd r\<rparr> else r) netRecords"


section \<open>Example inputs\<close>

text \<open>Concrete records, regulation maps and parsers at which the theorems below are
  instantiated.\<close>

definition mkRecord ::
  "string \<Rightarrow> NettingSetDetails \<Rightarrow> ProductClass \<Rightarrow> RiskType \<Rightarrow> string \<Rightarrow> string \<Rightarrow> string \<Rightarrow>
   string \<Rightarrow> real \<Rightarrow> real \<Rightarrow> CrifRecord" where
  "mkRecord tid nsd pc rt q b l1 l2 a aUsd =
     \<lparr> tradeId = tid, tradeType = ''Swap'', nettingSetDetails = nsd, productClass = pc,
       riskType = rt, qualifier = q, bucket = b, label1 = l1, label2 = l2,
       amountCurrency = ''USD'', amount = a, amountUsd = aUsd, imModel = ''SIMM'',
       collectRegulations = [], postRegulations = [] \<rparr>"

definition exampleParse :: "string \<Rightarrow> string list" where
  "exampleParse s = (if s = [] then [''Unspecified''] else [s])"

definition recA :: CrifRecord where
  "recA = mkRecord ''T1'' ''NS'' PC_Equity Equity ''ISIN1'' ''1'' [] [] 10 10"


definition recC :: CrifRecord where
  "recC = (mkRecord ''T3'' ''NS'' PC_Equity Equity ''ISIN3'' ''3'' [] [] 30 30)
            \<lparr>collectRegulations := ''SEC''\<rparr>"


definition factorQ :: CrifRecord where
  "factorQ = mkRecord [] ''NS'' PC_Empty AddOnNotionalFactor ''Q'' [] [] [] 5 5"

definition notionalQ :: CrifRecord where
  "notionalQ = mkRecord [] ''NS'' PC_Empty Notional ''Q'' [] [] [] 1000 1000"

definition notionalQRates :: CrifRecord where
  "notionalQRates = mkRecord [] ''NS'' PC_Rates Notional ''Q'' [] [] [] 2000 2000"

definition fixedNegative :: CrifRecord where
  "fixedNegative = mkRecord [] ''NS'' PC_Empty AddOnFixedAmount [] [] [] [] (- 100) (- 100)"

text \<open>A configuration with unit weights and volatilities; the correlations and the
  concentration thresholds distinguish the risk types and the currencies.\<close>

definition exampleConfiguration :: SimmConfiguration where
  "exampleConfiguration =
     \<lparr> weight = (\<lambda>rt q l1 ccy. 1),
       correlation = (\<lambda>rt q l1 l2 rt' q' l1' l2' ccy.
                        if rt = FX \<and> (q = ''USD'' \<or> q' = ''USD'') then 1
                        else if rt = IRCurve \<and> rt' = IRCurve \<and> q \<noteq> q' then 1 / 5
                        else 0),
       concentrationThreshold = (\<lambda>rt q. if rt = IRCurve \<and> q = ''USD'' then 1 else 10000),
       curvatureWeight = (\<lambda>rt l1. 1),
       sigma = (\<lambda>rt q l1 ccy. 1),
       historicalVolatilityRatio = (\<lambda>rt. 1),
       curvatureMarginScaling = 2,
       version = V2_1 \<rparr>"

definition exampleCalculator :: SimmCalculator where
  "exampleCalculator =
     \<lparr> simmConfiguration = exampleConfiguration, calculationCcy = ''USD'', quantile995 = 2 \<rparr>"




definition ir1 :: CrifRecord where
  "ir1 = mkRecord ''T4'' ''NS'' PC_RatesFX IRCurve ''USD'' ''1'' ''10y'' ''Libor3m'' 3 3"

definition inf1 :: CrifRecord where
  "inf1 = mkRecord ''T5'' ''NS'' PC_RatesFX Inflation ''USD'' [] [] [] 1 1"

definition xc1 :: CrifRecord where
  "xc1 = mkRecord ''T6'' ''NS'' PC_RatesFX XCcyBasis ''USD'' [] [] [] 3 3"

definition ir2 :: CrifRecord where
  "ir2 = mkRecord ''T7'' ''NS'' PC_RatesFX IRCurve ''EUR'' ''1'' ''10y'' ''Libor3m'' 5 5"

definition irRecords :: "CrifRecord list" where
  "irRecords = [ir1, inf1, xc1, ir2]"






section \<open>Properties of the regulation splitting\<close>

subsection \<open>The association lists\<close>

lemma mapCount_iff: "mapCount s k \<longleftrightarrow> k \<in> fst ` set s"
  by (induction s k rule: mapCount.induct) auto

lemma keys_mapPut: "fst ` set (mapPut s k v) = insert k (fst ` set s)"
  by (induction s k v rule: mapPut.induct) auto

lemma distinct_mapPut: "distinct (map fst s) \<Longrightarrow> distinct (map fst (mapPut s k v))"
  by (induction s k v rule: mapPut.induct) (auto simp: keys_mapPut)

lemma mapAt_mapPut: "mapAt (mapPut s k v) k' = (if k' = k then v else mapAt s k')"
  by (induction s k v rule: mapPut.induct) auto

lemma keys_mapErase: "fst ` set (mapErase s k) = fst ` set s - {k}"
  by (induction s k rule: mapErase.induct) auto

lemma distinct_mapErase: "distinct (map fst s) \<Longrightarrow> distinct (map fst (mapErase s k))"
  by (induction s k rule: mapErase.induct) (auto simp: keys_mapErase)


lemma trackRecords_snoc: "trackRecords (xs @ [x]) = trackRecord x (trackRecords xs)"
  by (simp add: trackRecords_def)

lemma tmp_trackRecords: "tmp (trackRecords recs) = filter (\<lambda>cr. imModel cr \<noteq> ''Schedule'') recs"
  by (induction recs rule: rev_induct) (auto simp: trackRecords_snoc trackRecord_def, simp add: trackRecords_def)

lemma trackIsEmpty_fold:
  "m nsd = (if \<exists>cr \<in> set xs. P cr \<and> nettingSetDetails cr = nsd
            then Some (\<forall>cr \<in> set xs. P cr \<and> nettingSetDetails cr = nsd \<longrightarrow> g cr = [])
            else None) \<Longrightarrow> P x \<Longrightarrow>
   trackIsEmpty m (nettingSetDetails x) (g x) nsd =
     (if \<exists>cr \<in> set (xs @ [x]). P cr \<and> nettingSetDetails cr = nsd
      then Some (\<forall>cr \<in> set (xs @ [x]). P cr \<and> nettingSetDetails cr = nsd \<longrightarrow> g cr = [])
      else None)"
proof (cases "nettingSetDetails x = nsd")
  case False
  assume a: "m nsd = (if \<exists>cr \<in> set xs. P cr \<and> nettingSetDetails cr = nsd
            then Some (\<forall>cr \<in> set xs. P cr \<and> nettingSetDetails cr = nsd \<longrightarrow> g cr = [])
            else None)" and "P x"
  from False have "trackIsEmpty m (nettingSetDetails x) (g x) nsd = m nsd"
    by (simp add: trackIsEmpty_def split: option.splits)
  with a False show ?thesis by auto
next
  case True
  assume a: "m nsd = (if \<exists>cr \<in> set xs. P cr \<and> nettingSetDetails cr = nsd
            then Some (\<forall>cr \<in> set xs. P cr \<and> nettingSetDetails cr = nsd \<longrightarrow> g cr = [])
            else None)" and p: "P x"
  show ?thesis
  proof (cases "\<exists>cr \<in> set xs. P cr \<and> nettingSetDetails cr = nsd")
    case False
    with a have "m nsd = None" by simp
    with True p False show ?thesis by (auto simp: trackIsEmpty_def)
  next
    case ex: True
    with a have "m nsd = Some (\<forall>cr \<in> set xs. P cr \<and> nettingSetDetails cr = nsd \<longrightarrow> g cr = [])"
      by simp
    with True p ex show ?thesis by (auto simp: trackIsEmpty_def)
  qed
qed

lemma collect_trackRecords:
  "collectRegsIsEmptyMap (trackRecords recs) nsd =
     (if \<exists>cr \<in> set recs. imModel cr \<noteq> ''Schedule'' \<and> nettingSetDetails cr = nsd
      then Some (\<forall>cr \<in> set recs. imModel cr \<noteq> ''Schedule'' \<and> nettingSetDetails cr = nsd
                   \<longrightarrow> collectRegulations cr = [])
      else None)"
proof (induction recs rule: rev_induct)
  case Nil
  then show ?case by (simp add: trackRecords_def)
next
  case (snoc x xs)
  show ?case
  proof (cases "imModel x = ''Schedule''")
    case True
    with snoc show ?thesis by (simp add: trackRecords_snoc trackRecord_def)
  next
    case False
    then show ?thesis
      using trackIsEmpty_fold [where P = "\<lambda>cr. imModel cr \<noteq> ''Schedule''" and g = collectRegulations
          and m = "collectRegsIsEmptyMap (trackRecords xs)" and nsd = nsd and xs = xs and x = x] snoc
      by (simp add: trackRecords_snoc trackRecord_def)
  qed
qed

lemma post_trackRecords:
  "postRegsIsEmptyMap (trackRecords recs) nsd =
     (if \<exists>cr \<in> set recs. imModel cr \<noteq> ''Schedule'' \<and> nettingSetDetails cr = nsd
      then Some (\<forall>cr \<in> set recs. imModel cr \<noteq> ''Schedule'' \<and> nettingSetDetails cr = nsd
                   \<longrightarrow> postRegulations cr = [])
      else None)"
proof (induction recs rule: rev_induct)
  case Nil
  then show ?case by (simp add: trackRecords_def)
next
  case (snoc x xs)
  show ?case
  proof (cases "imModel x = ''Schedule''")
    case True
    with snoc show ?thesis by (simp add: trackRecords_snoc trackRecord_def)
  next
    case False
    then show ?thesis
      using trackIsEmpty_fold [where P = "\<lambda>cr. imModel cr \<noteq> ''Schedule''" and g = postRegulations
          and m = "postRegsIsEmptyMap (trackRecords xs)" and nsd = nsd and xs = xs and x = x] snoc
      by (simp add: trackRecords_snoc trackRecord_def)
  qed
qed

lemma addToRegulation_at:
  "addToRegulation side' nsd' new r' rs side nsd =
     (if side = side' \<and> nsd = nsd'
      then mapPut (rs side nsd) r' (CrifLoader_add (mapAt (rs side nsd) r') new)
      else rs side nsd)"
  by (simp add: addToRegulation_def)

lemma fold_add_count:
  "mapCount (fold (\<lambda>r rs. if keep r then addToRegulation side' nsd' new r rs else rs) regs rs side nsd) r
   \<longleftrightarrow> mapCount (rs side nsd) r \<or> (side = side' \<and> nsd = nsd' \<and> r \<in> set regs \<and> keep r)"
  by (induction regs arbitrary: rs) (auto simp: addToRegulation_at mapCount_iff keys_mapPut)

lemma fold_add_distinct:
  "distinct (map fst (rs side nsd)) \<Longrightarrow>
   distinct (map fst (fold (\<lambda>r rs. if keep r then addToRegulation side' nsd' new r rs else rs) regs rs side nsd))"
proof (induction regs arbitrary: rs)
  case Nil
  then show ?case by simp
next
  case (Cons a regs)
  have "distinct (map fst (addToRegulation side' nsd' new a rs side nsd))"
    using Cons.prems by (auto simp: addToRegulation_at intro: distinct_mapPut)
  with Cons show ?case by simp
qed

lemma fold_add_set:
  "set (mapAt (fold (\<lambda>r rs. if keep r then addToRegulation side' nsd' new r rs else rs) regs rs side nsd) r)
   = set (mapAt (rs side nsd) r) \<union>
     (if side = side' \<and> nsd = nsd' \<and> r \<in> set regs \<and> keep r then {new} else {})"
  by (induction regs arbitrary: rs) (auto simp: addToRegulation_at mapAt_mapPut CrifLoader_add_def)

lemma addCrifRecord_alt:
  "addCrifRecord parse t cr side' enforce rs =
   fold (\<lambda>r rs. if keptTag enforce t (nettingSetDetails cr) r then addToRegulation side' (nettingSetDetails cr) (cr\<lparr>collectRegulations := [], postRegulations := []\<rparr>) r rs else rs)
     (parse (regsStringOf enforce side' cr)) rs"
  unfolding addCrifRecord_def Let_def keptTag_def regsStringOf_def
  by (rule arg_cong [where f = "\<lambda>f. fold f _ _"]) (auto simp: fun_eq_iff)

lemma addCrifRecord_count:
  "mapCount (addCrifRecord parse t cr side' enforce rs side nsd) r
   \<longleftrightarrow> mapCount (rs side nsd) r \<or>
       (side = side' \<and> nsd = nettingSetDetails cr \<and> r \<in> set (parse (regsStringOf enforce side' cr)) \<and> keptTag enforce t nsd r)"
  unfolding addCrifRecord_alt fold_add_count by auto

lemma addCrifRecord_distinct:
  "distinct (map fst (rs side nsd)) \<Longrightarrow>
   distinct (map fst (addCrifRecord parse t cr side' enforce rs side nsd))"
  unfolding addCrifRecord_alt by (rule fold_add_distinct)

lemma addCrifRecord_set:
  "set (mapAt (addCrifRecord parse t cr side' enforce rs side nsd) r)
   = set (mapAt (rs side nsd) r) \<union>
     (if side = side' \<and> nsd = nettingSetDetails cr \<and> r \<in> set (parse (regsStringOf enforce side' cr)) \<and> keptTag enforce t nsd r then {cr\<lparr>collectRegulations := [], postRegulations := []\<rparr>} else {})"
  unfolding addCrifRecord_alt fold_add_set by auto

lemma addAll_snoc: "addAll parse t enforce (xs @ [x]) =
   addCrifRecord parse t x Post enforce (addCrifRecord parse t x Call enforce (addAll parse t enforce xs))"
  by (simp add: addAll_def)

lemma addAll_count:
  "mapCount (addAll parse t enforce recs side nsd) r \<longleftrightarrow>
     (\<exists>cr \<in> set recs. nettingSetDetails cr = nsd \<and> r \<in> set (parse (regsStringOf enforce side cr)) \<and> keptTag enforce t nsd r)"
proof (induction recs rule: rev_induct)
  case Nil
  then show ?case by (simp add: addAll_def)
next
  case (snoc x xs)
  then show ?case
    unfolding addAll_snoc addCrifRecord_count by (cases side) auto
qed

lemma addAll_distinct: "distinct (map fst (addAll parse t enforce recs side nsd))"
  by (induction recs rule: rev_induct) (simp_all add: addAll_def addCrifRecord_distinct)

lemma addAll_set:
  "set (mapAt (addAll parse t enforce recs side nsd) r) =
     {cr\<lparr>collectRegulations := [], postRegulations := []\<rparr> | cr.
        cr \<in> set recs \<and> nettingSetDetails cr = nsd \<and> r \<in> set (parse (regsStringOf enforce side cr)) \<and> keptTag enforce t nsd r}"
proof (induction recs rule: rev_induct)
  case Nil
  then show ?case by (simp add: addAll_def)
next
  case (snoc x xs)
  then show ?case
    unfolding addAll_snoc addCrifRecord_set by (cases side) auto
qed

lemma addCrifRecords_addAll: "addCrifRecords parse t enforce = addAll parse t enforce (tmp t)"
  by (simp add: addCrifRecords_def addAll_def)

lemma keptTag_trackRecords:
  assumes "cr \<in> set recs" "imModel cr \<noteq> ''Schedule''" "nettingSetDetails cr = nsd"
  shows "keptTag enforce (trackRecords recs) nsd r \<longleftrightarrow>
         r \<noteq> ''Excluded'' \<and> \<not> (r = ''Unspecified'' \<and> enforce \<and> regulationsSpecified recs nsd)"
proof -
  have ex: "\<exists>cr \<in> set recs. imModel cr \<noteq> ''Schedule'' \<and> nettingSetDetails cr = nsd"
    using assms by blast
  show ?thesis
    unfolding keptTag_def collect_trackRecords post_trackRecords regulationsSpecified_def list_ex_iff
    using ex by auto
qed

lemma split_members:
  "x \<in> set (mapAt (addCrifRecords parse (trackRecords recs) enforce side nsd) r) \<longleftrightarrow>
     (\<exists>cr \<in> set recs. imModel cr \<noteq> ''Schedule'' \<and> nettingSetDetails cr = nsd \<and>
        x = cr\<lparr>collectRegulations := [], postRegulations := []\<rparr> \<and>
        r \<in> set (parse (regsStringOf enforce side cr)) \<and> r \<noteq> ''Excluded'' \<and>
        \<not> (r = ''Unspecified'' \<and> enforce \<and> regulationsSpecified recs nsd))"
  unfolding addCrifRecords_addAll addAll_set tmp_trackRecords
  using keptTag_trackRecords [of _ recs nsd enforce r] by auto

lemma split_keys:
  "mapCount (addCrifRecords parse (trackRecords recs) enforce side nsd) r \<longleftrightarrow>
     (\<exists>cr \<in> set recs. imModel cr \<noteq> ''Schedule'' \<and> nettingSetDetails cr = nsd \<and>
        r \<in> set (parse (regsStringOf enforce side cr)) \<and> r \<noteq> ''Excluded'' \<and>
        \<not> (r = ''Unspecified'' \<and> enforce \<and> regulationsSpecified recs nsd))"
  unfolding addCrifRecords_addAll addAll_count tmp_trackRecords
  using keptTag_trackRecords [of _ recs nsd enforce r] by auto





lemma eraseUnspecified_alone:
  "mapCount (eraseUnspecified s) ''Unspecified'' \<Longrightarrow> mapCount (eraseUnspecified s) r \<Longrightarrow> r = ''Unspecified''"
proof (cases "mapCount s ''Unspecified'' \<and> length s > 1")
  case True
  then have "eraseUnspecified s = mapErase s ''Unspecified''" by (simp add: eraseUnspecified_def)
  moreover assume "mapCount (eraseUnspecified s) ''Unspecified''"
  ultimately show ?thesis by (simp add: mapCount_iff keys_mapErase)
next
  case False
  assume a: "mapCount (eraseUnspecified s) ''Unspecified''" "mapCount (eraseUnspecified s) r"
  from False have e: "eraseUnspecified s = s" by (auto simp: eraseUnspecified_def)
  with a False have "length s \<le> 1" by auto
  then obtain k v where "s = [] \<or> s = [(k, v)]"
    by (cases s) (auto simp: length_Suc_conv)
  with a e show ?thesis by (auto split: if_splits)
qed






text \<open>
  Claim C7. The records split are those that are not Schedule records. A record is
  held under the regulation \<open>r\<close> of a side and netting set exactly when it is such a
  record of the netting set, \<open>r\<close> is one of the tags of its regulation string for the
  side, \<open>r\<close> is not Excluded, and \<open>r\<close> is not Unspecified with \<open>enforceIMRegulations\<close>
  set and a collect or post regulation string of the netting set not empty. After the
  post-processing, a side and netting set that has the regulation Unspecified has no
  other regulation.
\<close>

theorem regulation_tags_and_unspecified:
  "(x \<in> set (mapAt (addCrifRecords parse (trackRecords recs) enforce side nsd) r) \<longleftrightarrow>
     (\<exists>cr \<in> set recs. imModel cr \<noteq> ''Schedule'' \<and> nettingSetDetails cr = nsd \<and>
        x = cr\<lparr>collectRegulations := [], postRegulations := []\<rparr> \<and>
        r \<in> set (parse (regsStringOf enforce side cr)) \<and> r \<noteq> ''Excluded'' \<and>
        \<not> (r = ''Unspecified'' \<and> enforce \<and> regulationsSpecified recs nsd)))
   \<and> (mapCount (splitRegulations parse enforce recs side nsd) ''Unspecified'' \<longrightarrow>
        (\<forall>r'. mapCount (splitRegulations parse enforce recs side nsd) r' \<longrightarrow> r' = ''Unspecified''))"
  using split_members [of x parse recs enforce side nsd r]
    eraseUnspecified_alone
  by (auto simp: splitRegulations_def Let_def)


theorem regulation_tags_and_unspecified_witness:
  "recC\<lparr>collectRegulations := [], postRegulations := []\<rparr> \<in>
     set (mapAt (addCrifRecords exampleParse (trackRecords [recA, recC]) True Call ''NS'') ''SEC'') \<and>
   recA \<notin> set (mapAt (addCrifRecords exampleParse (trackRecords [recA, recC]) True Call ''NS'') ''Unspecified'') \<and>
   mapCount (splitRegulations exampleParse False [recA, recC] Call ''NS'') ''Unspecified'' \<and>
   (\<forall>r'. mapCount (splitRegulations exampleParse False [recA, recC] Call ''NS'') r' = (r' = ''Unspecified''))"
proof -
  have a: "splitRegulations exampleParse False [recA, recC] Call ''NS'' = [(''Unspecified'', [recA, recC\<lparr>collectRegulations := []\<rparr>])]"
    by (simp add: splitRegulations_def trackRecords_def trackRecord_def trackIsEmpty_def Let_def
        recA_def recC_def mkRecord_def addCrifRecords_def addCrifRecord_def exampleParse_def
        addToRegulation_def CrifLoader_add_def mergeCFTCintoSEC_def eraseUnspecified_def)
  have b: "regulationsSpecified [recA, recC] ''NS''"
    by (simp add: regulationsSpecified_def recA_def recC_def mkRecord_def)
  have c: "recA\<lparr>collectRegulations := [], postRegulations := []\<rparr> = recA"
    by (simp add: recA_def mkRecord_def)
  show ?thesis
    using regulation_tags_and_unspecified [of "recC\<lparr>collectRegulations := [], postRegulations := []\<rparr>" exampleParse "[recA, recC]" True Call "''NS''" "''SEC''"]
      regulation_tags_and_unspecified [of recA exampleParse "[recA, recC]" True Call "''NS''" "''Unspecified''"]
      regulation_tags_and_unspecified [of recA exampleParse "[recA, recC]" False Call "''NS''" "''Unspecified''"] b
    unfolding a
    by (simp add: regsStringOf_def exampleParse_def recC_def recA_def mkRecord_def)
qed

section \<open>Properties of the additional margin\<close>

lemma loop_error_iff:
  "(\<exists>e. addOnNotionalFactorLoop nsd netRecords pIt results = Inl e) \<longleftrightarrow>
   (\<exists>it \<in> set pIt. 2 \<le> length (equal_range_Qualifier nsd PC_Empty Notional (qualifier it) netRecords))"
  by (induction pIt arbitrary: results) (auto simp: addOnNotionalFactorStep_def Let_def not_less)

lemma get_addAdditionalIM:
  "pc \<noteq> PC_All \<Longrightarrow> SimmResults_get (addAdditionalIM results pc m) PC_All RC_All MT_All ''All'' =
   SimmResults_get results PC_All RC_All MT_All ''All'' + m"
  by (simp add: addAdditionalIM_def add_def SimmResults_get_def Let_def split: option.splits)

lemma loop_total:
  "addOnNotionalFactorLoop nsd netRecords pIt results = Inr results' \<Longrightarrow>
   SimmResults_get results' PC_All RC_All MT_All ''All'' =
     SimmResults_get results PC_All RC_All MT_All ''All'' + (\<Sum>it\<leftarrow>pIt. notionalContribution nsd netRecords it)"
proof (induction pIt arbitrary: results)
  case Nil
  then show ?case by simp
next
  case (Cons it rest)
  then show ?case
    by (auto simp: addOnNotionalFactorStep_def Let_def notionalContribution_def get_addAdditionalIM
        length_Suc_conv split: sum.splits if_splits list.splits)
qed

lemma step_cases:
  "(addOnNotionalFactorStep nsd netRecords it results = Inl RequireFailed \<longleftrightarrow>
      1 < length (equal_range_Qualifier nsd PC_Empty Notional (qualifier it) netRecords))
   \<and> (length (equal_range_Qualifier nsd PC_Empty Notional (qualifier it) netRecords) = 1 \<longrightarrow>
        addOnNotionalFactorStep nsd netRecords it results =
          Inr (addAdditionalIM results PC_AddOnNotionalFactor
                 (amountUsd (hd (equal_range_Qualifier nsd PC_Empty Notional (qualifier it) netRecords))
                    * amount it / 100)))
   \<and> (length (equal_range_Qualifier nsd PC_Empty Notional (qualifier it) netRecords) = 0 \<longrightarrow>
        addOnNotionalFactorStep nsd netRecords it results = Inr results)"
  by (auto simp: addOnNotionalFactorStep_def Let_def)


text \<open>
  Claim C8, as amended. The Notional records the loop looks up for an
  AddOnNotionalFactor record with qualifier \<open>Q\<close> are those of the netting set with the
  empty product class and the qualifier \<open>Q\<close>. The step for the record fails exactly
  when there is more than one of them; with exactly one, it adds the notional's USD
  amount times the factor over 100; with none it leaves the results as they are. The
  loop over the AddOnNotionalFactor records fails exactly when the step of one of them
  does, and otherwise the total of the netting set grows by the sum of the
  contributions.
\<close>

theorem notional_factor_add_on:
  "(addOnNotionalFactorStep nsd netRecords it results = Inl RequireFailed \<longleftrightarrow>
      1 < length (equal_range_Qualifier nsd PC_Empty Notional (qualifier it) netRecords))
   \<and> (length (equal_range_Qualifier nsd PC_Empty Notional (qualifier it) netRecords) = 1 \<longrightarrow>
        addOnNotionalFactorStep nsd netRecords it results =
          Inr (addAdditionalIM results PC_AddOnNotionalFactor
                 (amountUsd (hd (equal_range_Qualifier nsd PC_Empty Notional (qualifier it) netRecords))
                    * amount it / 100)))
   \<and> (length (equal_range_Qualifier nsd PC_Empty Notional (qualifier it) netRecords) = 0 \<longrightarrow>
        addOnNotionalFactorStep nsd netRecords it results = Inr results)
   \<and> (isl (addOnNotionalFactorLoop nsd netRecords pIt results) \<longleftrightarrow>
        (\<exists>it \<in> set pIt. 1 < length (equal_range_Qualifier nsd PC_Empty Notional (qualifier it) netRecords)))
   \<and> (addOnNotionalFactorLoop nsd netRecords pIt results = Inr results' \<longrightarrow>
        SimmResults_get results' PC_All RC_All MT_All ''All'' =
          SimmResults_get results PC_All RC_All MT_All ''All''
            + (\<Sum>it\<leftarrow>pIt. notionalContribution nsd netRecords it))"
proof -
  have "isl (addOnNotionalFactorLoop nsd netRecords pIt results) \<longleftrightarrow>
        (\<exists>e. addOnNotionalFactorLoop nsd netRecords pIt results = Inl e)"
    by (cases "addOnNotionalFactorLoop nsd netRecords pIt results") auto
  then show ?thesis
    using step_cases [of nsd netRecords it results] loop_error_iff [of nsd netRecords pIt results]
      loop_total [of nsd netRecords pIt results results']
    by (auto simp: Suc_le_eq numeral_2_eq_2)
qed


text \<open>The claim as stated fails: two Notional records of the netting set have the
  qualifier \<open>Q\<close>, one of them with the product class Rates; the loop does not fail and
  adds the contribution of the other one.\<close>

theorem notional_factor_add_on_counterexample:
  "length (filter (\<lambda>r. nettingSetDetails r = ''NS'' \<and> riskType r = Notional \<and> qualifier r = ''Q'')
             [factorQ, notionalQ, notionalQRates]) = 2
   \<and> addOnNotionalFactorLoop ''NS'' [factorQ, notionalQ, notionalQRates]
        (equal_range_RiskType ''NS'' PC_Empty AddOnNotionalFactor [factorQ, notionalQ, notionalQRates])
        Map.empty
      = Inr (addAdditionalIM Map.empty PC_AddOnNotionalFactor 50)"
  by (simp add: factorQ_def notionalQ_def notionalQRates_def mkRecord_def equal_range_RiskType_def
      equal_range_Qualifier_def addOnNotionalFactorStep_def Let_def)


theorem notional_factor_add_on_witness:
  "addOnNotionalFactorStep ''NS'' [factorQ, notionalQ, notionalQ] factorQ Map.empty = Inl RequireFailed
   \<and> addOnNotionalFactorStep ''NS'' [factorQ, notionalQ] factorQ Map.empty
       = Inr (addAdditionalIM Map.empty PC_AddOnNotionalFactor 50)
   \<and> addOnNotionalFactorStep ''NS'' [factorQ] factorQ Map.empty = Inr Map.empty
   \<and> isl (addOnNotionalFactorLoop ''NS'' [factorQ, notionalQ, notionalQ] [factorQ] Map.empty)
   \<and> SimmResults_get (addAdditionalIM Map.empty PC_AddOnNotionalFactor 50) PC_All RC_All MT_All ''All'' = 50"
proof -
  have l2: "length (equal_range_Qualifier ''NS'' PC_Empty Notional (qualifier factorQ) [factorQ, notionalQ, notionalQ]) = 2"
    and l1: "equal_range_Qualifier ''NS'' PC_Empty Notional (qualifier factorQ) [factorQ, notionalQ] = [notionalQ]"
    and l0: "equal_range_Qualifier ''NS'' PC_Empty Notional (qualifier factorQ) [factorQ] = []"
    by (simp_all add: factorQ_def notionalQ_def mkRecord_def equal_range_Qualifier_def)
  have v: "amountUsd notionalQ * amount factorQ / 100 = 50"
    by (simp add: factorQ_def notionalQ_def mkRecord_def)
  have r: "addOnNotionalFactorLoop ''NS'' [factorQ, notionalQ] [factorQ] Map.empty
        = Inr (addAdditionalIM Map.empty PC_AddOnNotionalFactor 50)"
    using l1 v by (simp add: addOnNotionalFactorStep_def Let_def)
  show ?thesis
    using notional_factor_add_on [of "''NS''" "[factorQ, notionalQ, notionalQ]" factorQ Map.empty "[factorQ]" Map.empty]
      notional_factor_add_on [of "''NS''" "[factorQ, notionalQ]" factorQ Map.empty "[factorQ]" "addAdditionalIM Map.empty PC_AddOnNotionalFactor 50"]
      notional_factor_add_on [of "''NS''" "[factorQ]" factorQ Map.empty "[]" Map.empty]
      l2 l1 l0 v r
    by (simp add: notionalContribution_def SimmResults_get_def)
qed


section \<open>Properties of the winning regulation\<close>

text \<open>
  Claim C1. A netting set whose only record is a fixed add-on of -100 USD has the
  overall margin -100 under its regulation: \<^verbatim>\<open>populateResults\<close> leaves the total 0,
  and \<^verbatim>\<open>calcAddMargin\<close> adds the amount to it. The highest margin is searched from
  \<^verbatim>\<open>numeric_limits<Real>::min()\<close>, which is positive, so no regulation is close to the
  winning margin, the list of winning regulations is empty and \<^verbatim>\<open>at(0)\<close> throws: no
  regulation is selected, although the netting set has the results of one.
\<close>

theorem winning_regulation_negative_margin:
  "calcAddMargin parseSimmProductClass ''NS'' [fixedNegative] [(PC_All, RC_All, MT_All, ''All'') \<mapsto> 0]
     = Inr (addAdditionalIM [(PC_All, RC_All, MT_All, ''All'') \<mapsto> 0] PC_AddOnFixedAmount (- 100))
   \<and> SimmResults_get (addAdditionalIM [(PC_All, RC_All, MT_All, ''All'') \<mapsto> 0] PC_AddOnFixedAmount (- 100))
        PC_All RC_All MT_All ''All'' = - 100
   \<and> selectWinningRegulation getWinningRegulation [(''CFTC'', - 100)] = Inl OutOfRange"
proof -
  have 1: "calcAddMargin parseSimmProductClass ''NS'' [fixedNegative] [(PC_All, RC_All, MT_All, ''All'') \<mapsto> 0]
     = Inr (addAdditionalIM [(PC_All, RC_All, MT_All, ''All'') \<mapsto> 0] PC_AddOnFixedAmount (- 100))"
    by (simp add: calcAddMargin_def equal_range_RiskType_def fixedNegative_def mkRecord_def
        addOnFixedAmountLoop_def)
  have 2: "SimmResults_get (addAdditionalIM [(PC_All, RC_All, MT_All, ''All'') \<mapsto> 0] PC_AddOnFixedAmount (- 100))
        PC_All RC_All MT_All ''All'' = - 100"
    by (simp add: addAdditionalIM_def add_def SimmResults_get_def Let_def)
  have 3: "selectWinningRegulation getWinningRegulation [(''CFTC'', - 100)] = Inl OutOfRange"
    by (simp add: selectWinningRegulation_def winningRegulationsOf_def close_enough_def
        numeric_limits_min_def QL_EPSILON_def Let_def)
  from 1 2 3 show ?thesis by blast
qed

section \<open>Properties of the margin functions\<close>

subsection \<open>Auxiliary lemmas\<close>

lemma fold_add_sum: "fold (\<lambda>y a. a + f y) xs (a0::real) = a0 + sum_list (map f xs)"
  by (induction xs arbitrary: a0) (simp_all add: algebra_simps)


lemma aggregateLoop_append:
  "aggregateLoop skip d c before (xs @ ys) acc =
     aggregateLoop skip d c (before @ xs) ys (aggregateLoop skip d c before xs acc)"
  by (induction xs arbitrary: before acc) simp_all


lemma aggregateLoop_snoc:
  "aggregateLoop (\<lambda>x. False) d c [] (xs @ [x]) 0 =
     aggregateLoop (\<lambda>x. False) d c [] xs 0 + d x + sum_list (map (c x) xs)"
  by (simp add: aggregateLoop_append fold_add_sum)

lemma aggregateLoop_sum:
  "aggregateLoop (\<lambda>x. False) d c [] xs 0 =
     (\<Sum>i<length xs. d (xs ! i)) + (\<Sum>i<length xs. \<Sum>j<i. c (xs ! i) (xs ! j))"
proof (induction xs rule: rev_induct)
  case Nil
  then show ?case by simp
next
  case (snoc x xs)
  have 1: "sum_list (map (c x) xs) = (\<Sum>j<length xs. c x (xs ! j))"
    by (simp add: sum_list_sum_nth atLeast0LessThan)
  have 2: "(\<Sum>i<length xs. d ((xs @ [x]) ! i)) = (\<Sum>i<length xs. d (xs ! i))"
    by (rule sum.cong) (simp_all add: nth_append)
  have 3: "(\<Sum>i<length xs. \<Sum>j<i. c ((xs @ [x]) ! i) ((xs @ [x]) ! j))
         = (\<Sum>i<length xs. \<Sum>j<i. c (xs ! i) (xs ! j))"
    by (intro sum.cong refl) (simp add: nth_append)
  have 4: "(\<Sum>j<length xs. c x ((xs @ [x]) ! j)) = (\<Sum>j<length xs. c x (xs ! j))"
    by (rule sum.cong) (simp_all add: nth_append)
  show ?case
    unfolding aggregateLoop_snoc snoc.IH
    by (simp add: 1 2 3 4)
qed













































lemma equal_range_BucketQualifier_double:
  "equal_range_BucketQualifier nsd pc rt b q (doubleQualifier q recs)
     = map (\<lambda>r. r\<lparr>amountUsd := 2 * amountUsd r\<rparr>) (equal_range_BucketQualifier nsd pc rt b q recs)"
  by (induction recs) (auto simp: equal_range_BucketQualifier_def doubleQualifier_def)

lemma concentrationRisk_sum:
  "concentrationRisk sc nsd pc rt netRecords b q =
     max 1 (sqrt \<bar>(\<Sum>it\<leftarrow>equal_range_BucketQualifier nsd pc rt b q netRecords.
                      amountUsd it * sigma (simmConfiguration sc) rt (qualifier it) (label1 it) (calculationCcy sc)
                        * historicalVolatilityRatio (simmConfiguration sc) rt)
                  / concentrationThreshold (simmConfiguration sc) rt q\<bar>)"
  by (simp add: concentrationRisk_def Let_def fold_add_sum)

lemma concentrationRisk_ge_one: "1 \<le> concentrationRisk sc nsd pc rt recs b q"
  by (simp add: concentrationRisk_def Let_def)

lemma concentrationRisk_double:
  "concentrationRisk sc nsd pc rt recs b q \<le> concentrationRisk sc nsd pc rt (doubleQualifier q recs) b q"
proof -
  let ?cfg = "simmConfiguration sc"
  let ?h = "\<lambda>it. amountUsd it * sigma ?cfg rt (qualifier it) (label1 it) (calculationCcy sc) * historicalVolatilityRatio ?cfg rt"
  let ?xs = "equal_range_BucketQualifier nsd pc rt b q recs"
  let ?c = "sum_list (map ?h ?xs)"
  let ?T = "concentrationThreshold ?cfg rt q"
  have "sum_list (map ?h (map (\<lambda>r. r\<lparr>amountUsd := 2 * amountUsd r\<rparr>) ?xs)) = (\<Sum>it\<leftarrow>?xs. 2 * ?h it)"
    by (simp add: comp_def mult.assoc)
  also have "\<dots> = 2 * ?c"
    by (rule sum_list_const_mult)
  finally have d: "sum_list (map ?h (map (\<lambda>r. r\<lparr>amountUsd := 2 * amountUsd r\<rparr>) ?xs)) = 2 * ?c" .
  have "\<bar>?c / ?T\<bar> \<le> \<bar>2 * ?c / ?T\<bar>"
    by (simp add: abs_mult abs_divide divide_right_mono)
  then have "sqrt \<bar>?c / ?T\<bar> \<le> sqrt \<bar>2 * ?c / ?T\<bar>"
    by (simp only: real_sqrt_le_iff)
  then have "max 1 (sqrt \<bar>?c / ?T\<bar>) \<le> max 1 (sqrt \<bar>2 * ?c / ?T\<bar>)"
    by (rule max.mono [OF order_refl])
  then show ?thesis
    unfolding concentrationRisk_sum equal_range_BucketQualifier_double d .
qed














lemma set_bucketKeys: "set (bucketKeys p) = bucket ` set p"
  by (simp add: bucketKeys_def)



subsection \<open>Closed forms of the interest rate and curvature margins\<close>

lemma irDeltaConcentrationRisk_sum:
  "irDeltaConcentrationRisk sc nsd pc netRecords q =
     max 1 (sqrt \<bar>((\<Sum>it\<leftarrow>equal_range_Qualifier nsd pc IRCurve q netRecords. amountUsd it)
                   + (case findQualifier nsd pc Inflation q netRecords of
                        None \<Rightarrow> 0 | Some itInflation \<Rightarrow> amountUsd itInflation))
                  / concentrationThreshold (simmConfiguration sc) IRCurve q\<bar>)"
  by (simp add: irDeltaConcentrationRisk_def Let_def fold_add_sum split: option.splits)

lemma irDeltaSum_sum:
  "irDeltaSum sc nsd pc netRecords q =
     (\<Sum>it\<leftarrow>equal_range_Qualifier nsd pc IRCurve q netRecords. irCurveWs sc nsd pc netRecords q it)
     + inflationWs sc nsd pc netRecords q + xccyWs sc nsd pc netRecords q"
  by (simp add: irDeltaSum_def Let_def fold_add_sum inflationWs_def xccyWs_def split: option.splits)

lemma irDeltaQualifierMargin_sum:
  "irDeltaQualifierMargin sc nsd pc netRecords q =
     sqrt (max
       ((\<Sum>i<length (equal_range_Qualifier nsd pc IRCurve q netRecords).
            irCurveWs sc nsd pc netRecords q (equal_range_Qualifier nsd pc IRCurve q netRecords ! i)
            * irCurveWs sc nsd pc netRecords q (equal_range_Qualifier nsd pc IRCurve q netRecords ! i))
        + (\<Sum>i<length (equal_range_Qualifier nsd pc IRCurve q netRecords). \<Sum>j<i.
             irCurveCrossTerm sc nsd pc netRecords q
               (equal_range_Qualifier nsd pc IRCurve q netRecords ! i)
               (equal_range_Qualifier nsd pc IRCurve q netRecords ! j))
        + inflationWs sc nsd pc netRecords q * inflationWs sc nsd pc netRecords q
        + (\<Sum>it\<leftarrow>equal_range_Qualifier nsd pc IRCurve q netRecords.
             2 * correlation (simmConfiguration sc) IRCurve q [] [] Inflation q [] [] []
               * irCurveWs sc nsd pc netRecords q it * inflationWs sc nsd pc netRecords q)
        + xccyWs sc nsd pc netRecords q * xccyWs sc nsd pc netRecords q
        + (\<Sum>it\<leftarrow>equal_range_Qualifier nsd pc IRCurve q netRecords.
             2 * correlation (simmConfiguration sc) IRCurve q [] [] XCcyBasis q [] [] []
               * irCurveWsCcy sc nsd pc netRecords q it * xccyWs sc nsd pc netRecords q)
        + 2 * correlation (simmConfiguration sc) Inflation q [] [] XCcyBasis q [] [] []
            * inflationWs sc nsd pc netRecords q * xccyWs sc nsd pc netRecords q) 0)"
proof -
  have i0: "findQualifier nsd pc Inflation q netRecords = None \<Longrightarrow> inflationWs sc nsd pc netRecords q = 0"
    by (simp add: inflationWs_def)
  have x0: "findQualifier nsd pc XCcyBasis q netRecords = None \<Longrightarrow> xccyWs sc nsd pc netRecords q = 0"
    by (simp add: xccyWs_def)
  show ?thesis
    unfolding irDeltaQualifierMargin_def Let_def aggregateLoop_sum fold_add_sum
    by (cases "findQualifier nsd pc Inflation q netRecords";
        cases "findQualifier nsd pc XCcyBasis q netRecords")
       (simp_all add: i0 x0 algebra_simps)
qed

lemma irDeltaMargin_ok:
  assumes "irDeltaQualifiers nsd pc netRecords \<noteq> []"
    and "\<forall>q \<in> set (irDeltaQualifiers nsd pc netRecords).
           length (equal_range_Qualifier nsd pc XCcyBasis q netRecords) < 2 \<and>
           length (equal_range_Qualifier nsd pc Inflation q netRecords) < 2"
  shows "irDeltaMargin sc nsd pc netRecords =
     Inr ((fold (\<lambda>q bm. bm(q \<mapsto> irDeltaQualifierMargin sc nsd pc netRecords q))
             (irDeltaQualifiers nsd pc netRecords) Map.empty)
          (''All'' \<mapsto> sqrt (max
             ((\<Sum>i<length (irDeltaQualifiers nsd pc netRecords).
                 irDeltaQualifierMargin sc nsd pc netRecords (irDeltaQualifiers nsd pc netRecords ! i)
                 * irDeltaQualifierMargin sc nsd pc netRecords (irDeltaQualifiers nsd pc netRecords ! i))
              + (\<Sum>i<length (irDeltaQualifiers nsd pc netRecords). \<Sum>j<i.
                   irDeltaCrossTerm sc nsd pc netRecords
                     (irDeltaQualifiers nsd pc netRecords ! i)
                     (irDeltaQualifiers nsd pc netRecords ! j))) 0)), True)"
proof -
  have "\<not> list_ex (\<lambda>q. \<not> length (equal_range_Qualifier nsd pc XCcyBasis q netRecords) < 2 \<or>
                      \<not> length (equal_range_Qualifier nsd pc Inflation q netRecords) < 2)
           (irDeltaQualifiers nsd pc netRecords)"
    using assms(2) by (auto simp: list_ex_iff)
  with assms(1) show ?thesis
    by (simp add: irDeltaMargin_def Let_def aggregateLoop_sum)
qed

lemma fold_upd_lookup:
  "(fold (\<lambda>q bm. bm(q \<mapsto> f q)) qs m) k = (if k \<in> set qs then Some (f k) else m k)"
  by (induction qs arbitrary: m) auto

lemma curvatureSum_sum:
  "curvatureSum sc nsd pc rt side netRecords b =
     (\<Sum>it\<leftarrow>equal_range_Bucket nsd pc rt b netRecords. curvatureWsOuter sc rt side b it)"
  by (simp add: curvatureSum_def fold_add_sum)





subsection \<open>The margins of the example inputs\<close>

lemma mkRecord_fields:
  "nettingSetDetails (mkRecord tid nsd pc rt q b l1 l2 a aUsd) = nsd"
  "productClass (mkRecord tid nsd pc rt q b l1 l2 a aUsd) = pc"
  "riskType (mkRecord tid nsd pc rt q b l1 l2 a aUsd) = rt"
  "qualifier (mkRecord tid nsd pc rt q b l1 l2 a aUsd) = q"
  "bucket (mkRecord tid nsd pc rt q b l1 l2 a aUsd) = b"
  "label1 (mkRecord tid nsd pc rt q b l1 l2 a aUsd) = l1"
  "label2 (mkRecord tid nsd pc rt q b l1 l2 a aUsd) = l2"
  "amount (mkRecord tid nsd pc rt q b l1 l2 a aUsd) = a"
  "amountUsd (mkRecord tid nsd pc rt q b l1 l2 a aUsd) = aUsd"
  by (simp_all add: mkRecord_def)

lemma example_fields:
  "calculationCcy exampleCalculator = ''USD''"
  "quantile995 exampleCalculator = 2"
  "weight (simmConfiguration exampleCalculator) rt q l1 ccy = 1"
  "correlation (simmConfiguration exampleCalculator) rt q l1 l2 rt' q' l1' l2' ccy =
     (if rt = FX \<and> (q = ''USD'' \<or> q' = ''USD'') then 1
      else if rt = IRCurve \<and> rt' = IRCurve \<and> q \<noteq> q' then 1 / 5 else 0)"
  "concentrationThreshold (simmConfiguration exampleCalculator) rt q =
     (if rt = IRCurve \<and> q = ''USD'' then 1 else 10000)"
  "curvatureWeight (simmConfiguration exampleCalculator) rt l1 = 1"
  "sigma (simmConfiguration exampleCalculator) rt q l1 ccy = 1"
  "historicalVolatilityRatio (simmConfiguration exampleCalculator) rt = 1"
  "curvatureMarginScaling (simmConfiguration exampleCalculator) = 2"
  "version (simmConfiguration exampleCalculator) = V2_1"
  by (simp_all add: exampleCalculator_def exampleConfiguration_def)

lemma sqrt_values:
  "sqrt 4 = 2" "sqrt 9 = 3" "sqrt 16 = 4" "sqrt 25 = 5" "sqrt 49 = 7" "sqrt 64 = 8"
  "sqrt 81 = 9" "sqrt 100 = 10"
  by (simp_all add: real_sqrt_unique)













lemmas ir_defs = irRecords_def ir1_def inf1_def xc1_def ir2_def

lemma ir_ranges:
  "equal_range_Qualifier ''NS'' PC_RatesFX IRCurve ''USD'' irRecords = [ir1]"
  "equal_range_Qualifier ''NS'' PC_RatesFX IRCurve ''EUR'' irRecords = [ir2]"
  "equal_range_Qualifier ''NS'' PC_RatesFX Inflation ''USD'' irRecords = [inf1]"
  "equal_range_Qualifier ''NS'' PC_RatesFX Inflation ''EUR'' irRecords = []"
  "equal_range_Qualifier ''NS'' PC_RatesFX XCcyBasis ''USD'' irRecords = [xc1]"
  "equal_range_Qualifier ''NS'' PC_RatesFX XCcyBasis ''EUR'' irRecords = []"
  by (simp_all add: equal_range_Qualifier_def ir_defs mkRecord_fields)

lemma ir_find:
  "findQualifier ''NS'' PC_RatesFX Inflation ''USD'' irRecords = Some inf1"
  "findQualifier ''NS'' PC_RatesFX Inflation ''EUR'' irRecords = None"
  "findQualifier ''NS'' PC_RatesFX XCcyBasis ''USD'' irRecords = Some xc1"
  "findQualifier ''NS'' PC_RatesFX XCcyBasis ''EUR'' irRecords = None"
  by (simp_all add: findQualifier_def ir_ranges)

lemma ir_qualifiers: "irDeltaQualifiers ''NS'' PC_RatesFX irRecords = [''EUR'', ''USD'']"
  by (simp add: irDeltaQualifiers_def qualifierKeys_def equal_range_RiskType_def ir_defs
      mkRecord_fields)

lemma ir_amounts:
  "amountUsd ir1 = 3" "amountUsd inf1 = 1" "amountUsd xc1 = 3" "amountUsd ir2 = 5"
  by (simp_all add: ir_defs mkRecord_fields)

lemma ir_concentrationRisk:
  "irDeltaConcentrationRisk exampleCalculator ''NS'' PC_RatesFX irRecords ''USD'' = 2"
  "irDeltaConcentrationRisk exampleCalculator ''NS'' PC_RatesFX irRecords ''EUR'' = 1"
  by (simp_all add: irDeltaConcentrationRisk_def Let_def ir_ranges ir_find ir_amounts
      example_fields sqrt_values)

lemma ir_ws:
  "irCurveWs exampleCalculator ''NS'' PC_RatesFX irRecords ''USD'' ir1 = 6"
  "irCurveWsCcy exampleCalculator ''NS'' PC_RatesFX irRecords ''USD'' ir1 = 6"
  "irCurveWs exampleCalculator ''NS'' PC_RatesFX irRecords ''EUR'' ir2 = 5"
  "irCurveWsCcy exampleCalculator ''NS'' PC_RatesFX irRecords ''EUR'' ir2 = 5"
  "inflationWs exampleCalculator ''NS'' PC_RatesFX irRecords ''USD'' = 2"
  "inflationWs exampleCalculator ''NS'' PC_RatesFX irRecords ''EUR'' = 0"
  "xccyWs exampleCalculator ''NS'' PC_RatesFX irRecords ''USD'' = 3"
  "xccyWs exampleCalculator ''NS'' PC_RatesFX irRecords ''EUR'' = 0"
  by (simp_all add: irCurveWs_def irCurveWsCcy_def inflationWs_def xccyWs_def ir_find
      ir_concentrationRisk ir_amounts example_fields)

lemma ir_qualifierMargin:
  "irDeltaQualifierMargin exampleCalculator ''NS'' PC_RatesFX irRecords ''USD'' = 7"
  "irDeltaQualifierMargin exampleCalculator ''NS'' PC_RatesFX irRecords ''EUR'' = 5"
  by (simp_all add: irDeltaQualifierMargin_def Let_def ir_ranges ir_find ir_ws example_fields
      sqrt_values)

lemma ir_clampedSum:
  "irDeltaClampedSum exampleCalculator ''NS'' PC_RatesFX irRecords ''USD'' = 7"
  "irDeltaClampedSum exampleCalculator ''NS'' PC_RatesFX irRecords ''EUR'' = 5"
  by (simp_all add: irDeltaClampedSum_def irDeltaSum_def Let_def ir_qualifierMargin ir_ranges
      ir_find ir_ws)

lemma ir_crossTerm:
  "irDeltaCrossTerm exampleCalculator ''NS'' PC_RatesFX irRecords ''USD'' ''EUR'' = 7"
  by (simp add: irDeltaCrossTerm_def Let_def ir_clampedSum ir_concentrationRisk example_fields)

lemma ir_margin:
  "irDeltaMargin exampleCalculator ''NS'' PC_RatesFX irRecords =
     Inr ([''EUR'' \<mapsto> 5, ''USD'' \<mapsto> 7, ''All'' \<mapsto> 9], True)"
  by (simp add: irDeltaMargin_def Let_def ir_qualifiers ir_ranges ir_qualifierMargin ir_crossTerm
      sqrt_values)















section \<open>The margin formulas\<close>

subsection \<open>The generic Delta and Vega margin\<close>






text \<open>
  Claim C9. Doubling amountUsd on every record of the qualifier \<open>q\<close> does not decrease
  the concentration risk of \<open>q\<close> in any bucket, and does not decrease the absolute value
  of the weighted sensitivity of a record of \<open>q\<close>.
\<close>

theorem concentration_risk_monotone:
  "concentrationRisk sc nsd pc rt netRecords b q
     \<le> concentrationRisk sc nsd pc rt (doubleQualifier q netRecords) b q
   \<and> (qualifier it = q \<longrightarrow>
        \<bar>weightedSensitivity sc nsd pc rt netRecords b it\<bar>
          \<le> \<bar>weightedSensitivity sc nsd pc rt (doubleQualifier q netRecords) b
               (it\<lparr>amountUsd := 2 * amountUsd it\<rparr>)\<bar>)"
proof (intro conjI impI)
  show "concentrationRisk sc nsd pc rt netRecords b q
     \<le> concentrationRisk sc nsd pc rt (doubleQualifier q netRecords) b q"
    by (rule concentrationRisk_double)
next
  assume q: "qualifier it = q"
  let ?cfg = "simmConfiguration sc"
  let ?x = "weight ?cfg rt q (label1 it) (calculationCcy sc)
            * (amountUsd it * sigma ?cfg rt q (label1 it) (calculationCcy sc) * historicalVolatilityRatio ?cfg rt)"
  let ?cr = "concentrationRisk sc nsd pc rt netRecords b q"
  let ?cr' = "concentrationRisk sc nsd pc rt (doubleQualifier q netRecords) b q"
  have 1: "weightedSensitivity sc nsd pc rt netRecords b it = ?x * ?cr"
    using q by (simp add: weightedSensitivity_def Let_def)
  have 2: "weightedSensitivity sc nsd pc rt (doubleQualifier q netRecords) b (it\<lparr>amountUsd := 2 * amountUsd it\<rparr>)
         = 2 * ?x * ?cr'"
    using q by (simp add: weightedSensitivity_def Let_def)
  have le: "?cr \<le> ?cr'" by (rule concentrationRisk_double)
  have pos: "0 \<le> ?cr" using concentrationRisk_ge_one [of sc nsd pc rt netRecords b q] by linarith
  have "\<bar>?x\<bar> * ?cr \<le> \<bar>?x\<bar> * ?cr'"
    using le by (simp add: mult_left_mono)
  also have "\<dots> \<le> 2 * \<bar>?x\<bar> * ?cr'"
    using pos le by (simp add: mult_right_mono)
  finally have "\<bar>?x * ?cr\<bar> \<le> \<bar>2 * ?x * ?cr'\<bar>"
    using pos le by (simp add: abs_mult)
  then show "\<bar>weightedSensitivity sc nsd pc rt netRecords b it\<bar>
          \<le> \<bar>weightedSensitivity sc nsd pc rt (doubleQualifier q netRecords) b
               (it\<lparr>amountUsd := 2 * amountUsd it\<rparr>)\<bar>"
    unfolding 1 2 .
qed

theorem concentration_risk_monotone_witness:
  "qualifier ir1 = ''USD''
   \<and> \<bar>weightedSensitivity exampleCalculator ''NS'' PC_RatesFX IRCurve [ir1] ''1'' ir1\<bar>
       \<le> \<bar>weightedSensitivity exampleCalculator ''NS'' PC_RatesFX IRCurve
            (doubleQualifier ''USD'' [ir1]) ''1'' (ir1\<lparr>amountUsd := 2 * amountUsd ir1\<rparr>)\<bar>
   \<and> weightedSensitivity exampleCalculator ''NS'' PC_RatesFX IRCurve [ir1] ''1'' ir1 = 3 * sqrt 3"
proof -
  have q: "qualifier ir1 = ''USD''" by (simp add: ir1_def mkRecord_fields)
  have w: "weightedSensitivity exampleCalculator ''NS'' PC_RatesFX IRCurve [ir1] ''1'' ir1 = 3 * sqrt 3"
    by (simp add: weightedSensitivity_def concentrationRisk_def equal_range_BucketQualifier_def
        Let_def ir1_def mkRecord_fields example_fields)
  show ?thesis
    using concentration_risk_monotone [of exampleCalculator "''NS''" PC_RatesFX IRCurve "[ir1]" "''1''"
        "''USD''" ir1] q w
    by simp
qed

subsection \<open>The interest rate delta margin\<close>

text \<open>
  Claim C4, as amended. In \<^verbatim>\<open>irDeltaMargin\<close> the weighted sensitivities of the
  IRCurve records and of the Inflation record of a currency are the risk weight times
  amountUsd times the concentration risk of the currency, and the weighted sensitivity
  of the XCcyBasis record is the risk weight times amountUsd, without the concentration
  risk. The sum of the weighted sensitivities of a currency is the sum of the three.
  The margin \<open>K\<close> of a currency is the square root, floored at 0, of the squares of the
  weighted sensitivities and their pairwise correlated products, where the products of
  an IRCurve record with the XCcyBasis record use the IRCurve weight for the calculation
  currency. The cross term of two currencies is
  \<open>2 S\<^sub>b S\<^sub>c \<gamma>\<^sub>b\<^sub>c g\<^sub>b\<^sub>c\<close> with \<open>g\<^sub>b\<^sub>c\<close> the smaller concentration risk of the two over
  the larger one. When there is a currency, and no currency has more than one XCcyBasis
  or Inflation record, the function returns the margins \<open>K\<close> per currency, and under All
  the square root, floored at 0, of the sum of the \<open>K\<^sup>2\<close> and of the cross terms over the
  pairs of currencies.
\<close>

theorem ir_delta_margin_formula:
  "irDeltaSum sc nsd pc netRecords q =
     (\<Sum>it\<leftarrow>equal_range_Qualifier nsd pc IRCurve q netRecords.
        weight (simmConfiguration sc) IRCurve q (label1 it) [] * amountUsd it
          * irDeltaConcentrationRisk sc nsd pc netRecords q)
     + inflationWs sc nsd pc netRecords q + xccyWs sc nsd pc netRecords q
   \<and> (findQualifier nsd pc Inflation q netRecords = Some itInflation \<longrightarrow>
        inflationWs sc nsd pc netRecords q =
          weight (simmConfiguration sc) Inflation q (label1 itInflation) [] * amountUsd itInflation
            * irDeltaConcentrationRisk sc nsd pc netRecords q)
   \<and> (findQualifier nsd pc XCcyBasis q netRecords = Some itXccy \<longrightarrow>
        xccyWs sc nsd pc netRecords q =
          weight (simmConfiguration sc) XCcyBasis q (label1 itXccy) [] * amountUsd itXccy)
   \<and> irDeltaQualifierMargin sc nsd pc netRecords q =
       sqrt (max
         ((\<Sum>i<length (equal_range_Qualifier nsd pc IRCurve q netRecords).
              irCurveWs sc nsd pc netRecords q (equal_range_Qualifier nsd pc IRCurve q netRecords ! i)
              * irCurveWs sc nsd pc netRecords q (equal_range_Qualifier nsd pc IRCurve q netRecords ! i))
          + (\<Sum>i<length (equal_range_Qualifier nsd pc IRCurve q netRecords). \<Sum>j<i.
               irCurveCrossTerm sc nsd pc netRecords q
                 (equal_range_Qualifier nsd pc IRCurve q netRecords ! i)
                 (equal_range_Qualifier nsd pc IRCurve q netRecords ! j))
          + inflationWs sc nsd pc netRecords q * inflationWs sc nsd pc netRecords q
          + (\<Sum>it\<leftarrow>equal_range_Qualifier nsd pc IRCurve q netRecords.
               2 * correlation (simmConfiguration sc) IRCurve q [] [] Inflation q [] [] []
                 * irCurveWs sc nsd pc netRecords q it * inflationWs sc nsd pc netRecords q)
          + xccyWs sc nsd pc netRecords q * xccyWs sc nsd pc netRecords q
          + (\<Sum>it\<leftarrow>equal_range_Qualifier nsd pc IRCurve q netRecords.
               2 * correlation (simmConfiguration sc) IRCurve q [] [] XCcyBasis q [] [] []
                 * irCurveWsCcy sc nsd pc netRecords q it * xccyWs sc nsd pc netRecords q)
          + 2 * correlation (simmConfiguration sc) Inflation q [] [] XCcyBasis q [] [] []
              * inflationWs sc nsd pc netRecords q * xccyWs sc nsd pc netRecords q) 0)
   \<and> irDeltaCrossTerm sc nsd pc netRecords q q' =
       2 * irDeltaClampedSum sc nsd pc netRecords q * irDeltaClampedSum sc nsd pc netRecords q'
         * correlation (simmConfiguration sc) IRCurve q [] [] IRCurve q' [] [] []
         * (min (irDeltaConcentrationRisk sc nsd pc netRecords q)
                (irDeltaConcentrationRisk sc nsd pc netRecords q')
            / max (irDeltaConcentrationRisk sc nsd pc netRecords q)
                  (irDeltaConcentrationRisk sc nsd pc netRecords q'))
   \<and> (irDeltaQualifiers nsd pc netRecords \<noteq> [] \<and>
      list_all (\<lambda>q. length (equal_range_Qualifier nsd pc XCcyBasis q netRecords) < 2 \<and>
                     length (equal_range_Qualifier nsd pc Inflation q netRecords) < 2)
        (irDeltaQualifiers nsd pc netRecords) \<longrightarrow>
      irDeltaMargin sc nsd pc netRecords =
        Inr ((fold (\<lambda>q bm. bm(q \<mapsto> irDeltaQualifierMargin sc nsd pc netRecords q))
                (irDeltaQualifiers nsd pc netRecords) Map.empty)
             (''All'' \<mapsto> sqrt (max
                ((\<Sum>i<length (irDeltaQualifiers nsd pc netRecords).
                    irDeltaQualifierMargin sc nsd pc netRecords (irDeltaQualifiers nsd pc netRecords ! i)
                    * irDeltaQualifierMargin sc nsd pc netRecords (irDeltaQualifiers nsd pc netRecords ! i))
                 + (\<Sum>i<length (irDeltaQualifiers nsd pc netRecords). \<Sum>j<i.
                      irDeltaCrossTerm sc nsd pc netRecords
                        (irDeltaQualifiers nsd pc netRecords ! i)
                        (irDeltaQualifiers nsd pc netRecords ! j))) 0)), True))"
proof (intro conjI impI)
  show "irDeltaSum sc nsd pc netRecords q =
     (\<Sum>it\<leftarrow>equal_range_Qualifier nsd pc IRCurve q netRecords.
        weight (simmConfiguration sc) IRCurve q (label1 it) [] * amountUsd it
          * irDeltaConcentrationRisk sc nsd pc netRecords q)
     + inflationWs sc nsd pc netRecords q + xccyWs sc nsd pc netRecords q"
    by (simp add: irDeltaSum_sum irCurveWs_def)
next
  assume "findQualifier nsd pc Inflation q netRecords = Some itInflation"
  then show "inflationWs sc nsd pc netRecords q =
          weight (simmConfiguration sc) Inflation q (label1 itInflation) [] * amountUsd itInflation
            * irDeltaConcentrationRisk sc nsd pc netRecords q"
    by (simp add: inflationWs_def)
next
  assume "findQualifier nsd pc XCcyBasis q netRecords = Some itXccy"
  then show "xccyWs sc nsd pc netRecords q =
          weight (simmConfiguration sc) XCcyBasis q (label1 itXccy) [] * amountUsd itXccy"
    by (simp add: xccyWs_def)
next
  show "irDeltaCrossTerm sc nsd pc netRecords q q' =
       2 * irDeltaClampedSum sc nsd pc netRecords q * irDeltaClampedSum sc nsd pc netRecords q'
         * correlation (simmConfiguration sc) IRCurve q [] [] IRCurve q' [] [] []
         * (min (irDeltaConcentrationRisk sc nsd pc netRecords q)
                (irDeltaConcentrationRisk sc nsd pc netRecords q')
            / max (irDeltaConcentrationRisk sc nsd pc netRecords q)
                  (irDeltaConcentrationRisk sc nsd pc netRecords q'))"
    by (simp add: irDeltaCrossTerm_def Let_def)
next
  assume a: "irDeltaQualifiers nsd pc netRecords \<noteq> [] \<and>
      list_all (\<lambda>q. length (equal_range_Qualifier nsd pc XCcyBasis q netRecords) < 2 \<and>
                     length (equal_range_Qualifier nsd pc Inflation q netRecords) < 2)
        (irDeltaQualifiers nsd pc netRecords)"
  then have "\<forall>q \<in> set (irDeltaQualifiers nsd pc netRecords).
           length (equal_range_Qualifier nsd pc XCcyBasis q netRecords) < 2 \<and>
           length (equal_range_Qualifier nsd pc Inflation q netRecords) < 2"
    by (simp add: list_all_iff)
  with a show "irDeltaMargin sc nsd pc netRecords =
        Inr ((fold (\<lambda>q bm. bm(q \<mapsto> irDeltaQualifierMargin sc nsd pc netRecords q))
                (irDeltaQualifiers nsd pc netRecords) Map.empty)
             (''All'' \<mapsto> sqrt (max
                ((\<Sum>i<length (irDeltaQualifiers nsd pc netRecords).
                    irDeltaQualifierMargin sc nsd pc netRecords (irDeltaQualifiers nsd pc netRecords ! i)
                    * irDeltaQualifierMargin sc nsd pc netRecords (irDeltaQualifiers nsd pc netRecords ! i))
                 + (\<Sum>i<length (irDeltaQualifiers nsd pc netRecords). \<Sum>j<i.
                      irDeltaCrossTerm sc nsd pc netRecords
                        (irDeltaQualifiers nsd pc netRecords ! i)
                        (irDeltaQualifiers nsd pc netRecords ! j))) 0)), True)"
    by (intro irDeltaMargin_ok) simp_all
qed (rule irDeltaQualifierMargin_sum)

text \<open>
  The claim as stated fails on the records \<open>irRecords\<close>: the concentration risk of USD is
  2, and the weighted sensitivity of the XCcyBasis record is 3, not 3 times 2; the total
  is 9, the square root of \<open>25 + 49 + 7\<close>, where the cross term 7 of EUR and USD is half of
  \<open>2 \<gamma> S\<^sub>b S\<^sub>c = 14\<close>, because the concentration risks are 1 and 2. Without the factor
  \<open>g\<close> the sum under the square root would be 88.
\<close>

theorem ir_delta_margin_formula_counterexample:
  "xccyWs exampleCalculator ''NS'' PC_RatesFX irRecords ''USD'' = 3
   \<and> weight (simmConfiguration exampleCalculator) XCcyBasis ''USD'' (label1 xc1) [] * amountUsd xc1
       * irDeltaConcentrationRisk exampleCalculator ''NS'' PC_RatesFX irRecords ''USD'' = 6
   \<and> irDeltaMargin exampleCalculator ''NS'' PC_RatesFX irRecords =
       Inr ([''EUR'' \<mapsto> 5, ''USD'' \<mapsto> 7, ''All'' \<mapsto> 9], True)
   \<and> 5 * 5 + 7 * 7
       + 2 * correlation (simmConfiguration exampleCalculator) IRCurve ''USD'' [] [] IRCurve ''EUR'' [] [] []
           * irDeltaClampedSum exampleCalculator ''NS'' PC_RatesFX irRecords ''USD''
           * irDeltaClampedSum exampleCalculator ''NS'' PC_RatesFX irRecords ''EUR'' = 88"
  by (simp add: ir_ws ir_margin ir_clampedSum ir_concentrationRisk ir_amounts example_fields)

theorem ir_delta_margin_formula_witness:
  "findQualifier ''NS'' PC_RatesFX Inflation ''USD'' irRecords = Some inf1
   \<and> findQualifier ''NS'' PC_RatesFX XCcyBasis ''USD'' irRecords = Some xc1
   \<and> irDeltaQualifiers ''NS'' PC_RatesFX irRecords \<noteq> []
   \<and> list_all (\<lambda>q. length (equal_range_Qualifier ''NS'' PC_RatesFX XCcyBasis q irRecords) < 2 \<and>
                   length (equal_range_Qualifier ''NS'' PC_RatesFX Inflation q irRecords) < 2)
        (irDeltaQualifiers ''NS'' PC_RatesFX irRecords)
   \<and> inflationWs exampleCalculator ''NS'' PC_RatesFX irRecords ''USD'' = 2
   \<and> xccyWs exampleCalculator ''NS'' PC_RatesFX irRecords ''USD'' = 3
   \<and> irDeltaSum exampleCalculator ''NS'' PC_RatesFX irRecords ''USD'' = 11
   \<and> irDeltaMargin exampleCalculator ''NS'' PC_RatesFX irRecords =
       Inr ([''EUR'' \<mapsto> 5, ''USD'' \<mapsto> 7, ''All'' \<mapsto> 9], True)"
proof -
  have h: "list_all (\<lambda>q. length (equal_range_Qualifier ''NS'' PC_RatesFX XCcyBasis q irRecords) < 2 \<and>
                   length (equal_range_Qualifier ''NS'' PC_RatesFX Inflation q irRecords) < 2)
        (irDeltaQualifiers ''NS'' PC_RatesFX irRecords)"
    by (simp add: ir_qualifiers ir_ranges)
  have n: "irDeltaQualifiers ''NS'' PC_RatesFX irRecords \<noteq> []"
    by (simp add: ir_qualifiers)
  have l1: "label1 inf1 = []" "label1 xc1 = []" "label1 ir1 = ''10y''"
    by (simp_all add: ir_defs mkRecord_fields)
  show ?thesis
    using ir_delta_margin_formula [of exampleCalculator "''NS''" PC_RatesFX irRecords "''USD''" inf1
        xc1 "''EUR''"] h n
    by (simp add: ir_find ir_ranges ir_concentrationRisk ir_amounts ir_qualifiers
        ir_qualifierMargin ir_crossTerm l1 example_fields sqrt_values)
qed

subsection \<open>The curvature margins\<close>




subsection \<open>Non-negative margins\<close>




end
